theory Spec2Isabelle
  imports Complex_Main
begin

section \<open>JavaScript values\<close>

text \<open>
  The worker of \<^verbatim>\<open>src/worker.js\<close> handles untyped values: the parsed request body, the
  tool arguments and the answers of the bindings. They are modelled by one datatype of
  JavaScript values. A number is the rational a finite double denotes, or one of the three
  values that are not finite; \<open>-0\<close> and \<open>0\<close> are not told apart (the worker cannot tell
  them apart either). An object is the list of its own properties in insertion order,
  each name once.
\<close>

datatype jsnum = Finite rat | NaN | PosInfinity | NegInfinity

datatype js =
    JUndefined
  | JNull
  | JBool bool
  | JNum jsnum
  | JStr string
  | JArr "js list"
  | JObj "(string \<times> js) list"

text \<open>
  A thrown value. The worker itself throws \<open>Error\<close> objects, and so does the runtime (a
  \<open>TypeError\<close> is one): \<open>Error msg\<close> is such an object with its \<open>message\<close>. A binding may
  throw or reject with any other value, \<open>null\<close> and \<open>undefined\<close> among them:
  \<open>Thrown v\<close>.
\<close>

datatype thrown = Error string | Thrown js

text \<open>\<open>ToBoolean\<close>: what \<open>!v\<close>, \<open>a || b\<close> and \<open>a && b\<close> test.\<close>

fun truthy :: "js \<Rightarrow> bool" where
  "truthy JUndefined = False"
| "truthy JNull = False"
| "truthy (JBool b) = b"
| "truthy (JNum n) = (n \<noteq> Finite 0 \<and> n \<noteq> NaN)"
| "truthy (JStr s) = (s \<noteq> [])"
| "truthy (JArr xs) = True"
| "truthy (JObj kvs) = True"

fun nullish :: "js \<Rightarrow> bool" where
  "nullish JUndefined = True"
| "nullish JNull = True"
| "nullish v = False"

text \<open>\<open>a ?? b\<close> and \<open>a || b\<close> (both operands here are values already computed).\<close>

definition coalesce :: "js \<Rightarrow> js \<Rightarrow> js" where
  "coalesce a b = (if nullish a then b else a)"

definition or_else :: "js \<Rightarrow> js \<Rightarrow> js" where
  "or_else a b = (if truthy a then a else b)"

text \<open>
  Reading a property. On an object it is the own property of that name, or \<open>undefined\<close>.
  The names the worker reads (\<open>jsonrpc\<close>, \<open>id\<close>, \<open>method\<close>, \<open>params\<close>, \<open>name\<close>,
  \<open>arguments\<close>, \<open>path\<close>, \<open>query\<close>, \<open>topK\<close>, \<open>objects\<close>, \<open>key\<close>, \<open>size\<close>,
  \<open>httpMetadata\<close>, \<open>lastModified\<close>, \<open>data\<close>, \<open>matches\<close>, \<open>results\<close>, \<open>score\<close>,
  \<open>metadata\<close>, \<open>source\<close>, \<open>text\<close>) are on no prototype of a boolean, number, string or
  array, so there the read gives \<open>undefined\<close>. \<open>v.k\<close> throws on \<open>undefined\<close> and
  \<open>null\<close>; \<open>v?.k\<close> gives \<open>undefined\<close> there.
\<close>

definition own :: "(string \<times> js) list \<Rightarrow> string \<Rightarrow> js" where
  "own kvs k = (case map_of kvs k of None \<Rightarrow> JUndefined | Some v \<Rightarrow> v)"

fun getprop :: "js \<Rightarrow> string \<Rightarrow> thrown + js" where
  "getprop JUndefined k =
     Inl (Error (''Cannot read properties of undefined (reading '' @ [CHR 0x27] @ k @ [CHR 0x27] @ '')''))"
| "getprop JNull k =
     Inl (Error (''Cannot read properties of null (reading '' @ [CHR 0x27] @ k @ [CHR 0x27] @ '')''))"
| "getprop (JObj kvs) k = Inr (own kvs k)"
| "getprop v k = Inr JUndefined"

fun optprop :: "js \<Rightarrow> string \<Rightarrow> js" where
  "optprop (JObj kvs) k = own kvs k"
| "optprop v k = JUndefined"

text \<open>
  \<open>e.message\<close> on a caught value: the message of an \<open>Error\<close> object, a property read on
  any other value (which throws on \<open>null\<close> and \<open>undefined\<close>).
\<close>

fun thrown_message :: "thrown \<Rightarrow> thrown + js" where
  "thrown_message (Error msg) = Inr (JStr msg)"
| "thrown_message (Thrown v) = getprop v ''message''"

text \<open>\<open>v?.[0]\<close>: the first element of an array, the first character of a string, the
  property \<open>"0"\<close> of an object.\<close>

fun optindex0 :: "js \<Rightarrow> js" where
  "optindex0 (JArr xs) = (case xs of [] \<Rightarrow> JUndefined | x # _ \<Rightarrow> x)"
| "optindex0 (JStr s) = (case s of [] \<Rightarrow> JUndefined | c # _ \<Rightarrow> JStr [c])"
| "optindex0 (JObj kvs) = own kvs ''0''"
| "optindex0 v = JUndefined"

fun isArray :: "js \<Rightarrow> bool" where
  "isArray (JArr xs) = True"
| "isArray v = False"

text \<open>\<open>s.endsWith("/")\<close> on a string.\<close>

definition endsWith :: "string \<Rightarrow> string \<Rightarrow> bool" where
  "endsWith s suffix = (length suffix \<le> length s \<and> drop (length s - length suffix) s = suffix)"

subsection \<open>Builtins taken as parameters\<close>

text \<open>
  Two builtins of the runtime are not programmed in the repository and are parameters of
  the model: \<open>JSON.stringify(v, null, 2)\<close> on the arrays the tools build, and the
  conversion of a number to a string (used when a template literal holds a number).
\<close>

record builtins =
  stringify2 :: "js \<Rightarrow> string"
  number_to_string :: "jsnum \<Rightarrow> string"

text \<open>
  \<open>ToString\<close>, as a template literal \<open>`${v}`\<close> applies it. An array joins its elements
  with commas (\<open>undefined\<close> and \<open>null\<close> give the empty string). A parsed object has no
  callable \<open>toString\<close>: with an own property of that name the conversion throws, without
  one it is \<open>[object Object]\<close>.
\<close>

fun join_comma :: "string list \<Rightarrow> string" where
  "join_comma [] = []"
| "join_comma [s] = s"
| "join_comma (s # t # ss) = s @ '','' @ join_comma (t # ss)"

fun collect :: "(thrown + 'a) list \<Rightarrow> thrown + 'a list" where
  "collect [] = Inr []"
| "collect (Inl e # rs) = Inl e"
| "collect (Inr x # rs) = (case collect rs of Inl e \<Rightarrow> Inl e | Inr xs \<Rightarrow> Inr (x # xs))"

fun to_string :: "builtins \<Rightarrow> js \<Rightarrow> thrown + string" where
  "to_string b JUndefined = Inr ''undefined''"
| "to_string b JNull = Inr ''null''"
| "to_string b (JBool t) = Inr (if t then ''true'' else ''false'')"
| "to_string b (JNum n) = Inr (number_to_string b n)"
| "to_string b (JStr s) = Inr s"
| "to_string b (JArr xs) =
     (case collect (map (\<lambda>x. if nullish x then Inr [] else to_string b x) xs) of
        Inl e \<Rightarrow> Inl e
      | Inr ss \<Rightarrow> Inr (join_comma ss))"
| "to_string b (JObj kvs) =
     (if ''toString'' \<in> fst ` set kvs
      then Inl (Error ''Cannot convert object to primitive value'')
      else Inr ''[object Object]'')"

section \<open>Bindings, calls and results\<close>

text \<open>
  The bindings of \<open>env\<close>. A binding that is not configured is \<open>None\<close>. Each operation
  returns its answer or throws. \<open>R2.get\<close> answers \<open>null\<close> (\<open>None\<close>) or an object whose
  \<open>text()\<close> gives the content or throws.
\<close>

record r2_bucket =
  r2_list :: "string \<Rightarrow> thrown + js"
  r2_get :: "js \<Rightarrow> thrown + (thrown + string) option"

record env =
  R2 :: "r2_bucket option"
  VECTOR_INDEX :: "(js \<Rightarrow> js \<Rightarrow> thrown + js) option"
  AI :: "(string \<Rightarrow> js \<Rightarrow> thrown + js) option"

text \<open>The calls to the bindings, in the order the worker makes them.\<close>

datatype call =
    R2_list_call string
  | R2_get_call js
  | R2_text_call
  | AI_run_call string js
  | VECTOR_INDEX_query_call js js

text \<open>A computation: the value it returns or the error it throws, and the calls it made.\<close>

type_synonym 'a res = "(thrown + 'a) \<times> call list"

definition ret :: "'a \<Rightarrow> 'a res" where
  "ret x = (Inr x, [])"

definition throw :: "thrown \<Rightarrow> 'a res" where
  "throw e = (Inl e, [])"

definition lift :: "thrown + 'a \<Rightarrow> 'a res" where
  "lift r = (r, [])"

definition called :: "call \<Rightarrow> thrown + 'a \<Rightarrow> 'a res" where
  "called c r = (r, [c])"

definition seq :: "'a res \<Rightarrow> ('a \<Rightarrow> 'b res) \<Rightarrow> 'b res" where
  "seq m f =
     (case m of
        (Inl e, cs) \<Rightarrow> (Inl e, cs)
      | (Inr x, cs) \<Rightarrow> (case f x of (r, cs') \<Rightarrow> (r, cs @ cs')))"

definition try_catch :: "'a res \<Rightarrow> (thrown \<Rightarrow> 'a res) \<Rightarrow> 'a res" where
  "try_catch m h =
     (case m of
        (Inl e, cs) \<Rightarrow> (case h e of (r, cs') \<Rightarrow> (r, cs @ cs'))
      | (Inr x, cs) \<Rightarrow> (Inr x, cs))"

fun seq_map :: "('a \<Rightarrow> 'b res) \<Rightarrow> 'a list \<Rightarrow> 'b list res" where
  "seq_map f [] = ret []"
| "seq_map f (x # xs) = seq (f x) (\<lambda>y. seq (seq_map f xs) (\<lambda>ys. ret (y # ys)))"

text \<open>\<open>a.map(f)\<close>, where \<open>what\<close> is the expression \<open>a\<close> as the source writes it (for the
  message of the error when \<open>a\<close> is no array).\<close>

definition array_map :: "string \<Rightarrow> js \<Rightarrow> (js \<Rightarrow> js res) \<Rightarrow> js res" where
  "array_map what a f =
     (case a of
        JArr xs \<Rightarrow> seq (seq_map f xs) (\<lambda>ys. ret (JArr ys))
      | JUndefined \<Rightarrow> throw (Error (''Cannot read properties of undefined (reading '' @ [CHR 0x27] @ ''map'' @ [CHR 0x27] @ '')''))
      | JNull \<Rightarrow> throw (Error (''Cannot read properties of null (reading '' @ [CHR 0x27] @ ''map'' @ [CHR 0x27] @ '')''))
      | _ \<Rightarrow> throw (Error (what @ ''.map is not a function'')))"

section \<open>Response helpers\<close>

datatype body = Plain string | Json js

text \<open>
  \<open>JSON.stringify(v)\<close>: the body \<open>Json w\<close> is the JSON text that denotes the value \<open>w\<close>. The
  serialization leaves out the properties of an object whose value is \<open>undefined\<close>, writes
  \<open>null\<close> for an \<open>undefined\<close> element of an array, and writes \<open>null\<close> for a number
  that is not finite.
\<close>

fun wire :: "js \<Rightarrow> js" where
  "wire (JNum n) = (case n of Finite q \<Rightarrow> JNum n | _ \<Rightarrow> JNull)"
| "wire (JArr xs) = JArr (map (\<lambda>x. if x = JUndefined then JNull else wire x) xs)"
| "wire (JObj kvs) =
     JObj (map (\<lambda>kv. (fst kv, wire (snd kv))) (filter (\<lambda>kv. snd kv \<noteq> JUndefined) kvs))"
| "wire v = v"

definition JSON_stringify :: "js \<Rightarrow> body" where
  "JSON_stringify v = Json (wire v)"

record response =
  payload :: body
  status :: int
  headers :: "(string \<times> string) list"

text \<open>
  A response is the body, the status and the headers given to \<open>new Response\<close>. The three
  helpers of the source:
\<close>

definition jsonRpcResult :: "js \<Rightarrow> js \<Rightarrow> int \<Rightarrow> response" where
  "jsonRpcResult rid result httpStatus =
     \<lparr> payload = JSON_stringify (JObj [(''jsonrpc'', JStr ''2.0''), (''id'', rid), (''result'', result)]),
       status = httpStatus,
       headers = [(''Content-Type'', ''application/json'')] \<rparr>"

definition jsonRpcError :: "js \<Rightarrow> int \<Rightarrow> string \<Rightarrow> int \<Rightarrow> response" where
  "jsonRpcError rid code msg httpStatus =
     \<lparr> payload = JSON_stringify (JObj [(''jsonrpc'', JStr ''2.0''), (''id'', rid),
         (''error'', JObj [(''code'', JNum (Finite (of_int code))), (''message'', JStr msg)])]),
       status = httpStatus,
       headers = [(''Content-Type'', ''application/json'')] \<rparr>"

definition legacyJson :: "js \<Rightarrow> int \<Rightarrow> response" where
  "legacyJson obj st =
     \<lparr> payload = JSON_stringify obj, status = st,
       headers = [(''Content-Type'', ''application/json'')] \<rparr>"

text \<open>The object literal \<open>{ content: [{ type: "text", text }] }\<close> that every tool branch
  builds.\<close>

definition text_content :: "string \<Rightarrow> js" where
  "text_content t = JObj [(''content'', JArr [JObj [(''type'', JStr ''text''), (''text'', JStr t)]])]"

section \<open>The request\<close>

text \<open>
  Of the request the worker reads the HTTP method and, for a POST, the body through
  \<open>request.json()\<close>, which gives the parsed value or throws (\<open>None\<close>). Its first
  statement \<open>new URL(request.url)\<close> cannot throw (the URL of a request is absolute) and
  its value is not used.
\<close>

record request =
  http_method :: string
  json_body :: "js option"

section \<open>Vector search helper\<close>

text \<open>\<open>searchVectors(env, query, topK)\<close>. The writes to the console are left out.\<close>

definition searchVectors :: "env \<Rightarrow> js \<Rightarrow> js \<Rightarrow> js res" where
  "searchVectors env query topK =
     (case VECTOR_INDEX env of
        None \<Rightarrow> throw (Error (''VECTOR_INDEX binding is missing. Add a ['' @ ''[vectorize]'' @ ''] binding in wrangler.toml.''))
      | Some index_query \<Rightarrow>
     (case AI env of
        None \<Rightarrow> throw (Error ''AI binding is missing. Add an [ai] binding in wrangler.toml or adjust searchVectors to use your embedding provider.'')
      | Some ai_run \<Rightarrow>
          seq (called (AI_run_call ''@cf/qwen/qwen3-embedding-0.6b'' (JObj [(''text'', JArr [query])]))
                 (ai_run ''@cf/qwen/qwen3-embedding-0.6b'' (JObj [(''text'', JArr [query])])))
            (\<lambda>embeddingResponse.
               let embedding = optindex0 (optprop embeddingResponse ''data'') in
               if \<not> truthy embedding \<or> \<not> isArray embedding
               then throw (Error ''Could not extract embedding from Workers AI response.'')
               else
                 seq (called (VECTOR_INDEX_query_call embedding (JObj [(''topK'', topK)]))
                        (index_query embedding (JObj [(''topK'', topK)])))
                   (\<lambda>vectorResult.
                      seq (seq (lift (getprop vectorResult ''matches''))
                             (\<lambda>m. if truthy m then ret m
                                  else seq (lift (getprop vectorResult ''results''))
                                         (\<lambda>r. ret (or_else r (JArr [])))))
                        (\<lambda>matches.
                           array_map ''matches'' matches
                             (\<lambda>m.
                                seq (lift (getprop m ''id'')) (\<lambda>m_id.
                                seq (lift (getprop m ''score'')) (\<lambda>m_score.
                                seq (lift (getprop m ''metadata'')) (\<lambda>m_metadata.
                                  ret (JObj [(''id'', m_id),
                                             (''score'', m_score),
                                             (''source'', optprop m_metadata ''source''),
                                             (''text'', optprop m_metadata ''text''),
                                             (''metadata'', or_else m_metadata (JObj []))]))))))))))"

section \<open>Storage\<close>

text \<open>\<open>env.R2.list({ prefix })\<close> and \<open>env.R2.get(path)\<close>: reading \<open>list\<close> or \<open>get\<close> of
  a missing binding throws.\<close>

definition R2_list :: "env \<Rightarrow> string \<Rightarrow> js res" where
  "R2_list env prefix =
     (case R2 env of
        None \<Rightarrow> lift (getprop JUndefined ''list'')
      | Some bucket \<Rightarrow> called (R2_list_call prefix) (r2_list bucket prefix))"

definition R2_get :: "env \<Rightarrow> js \<Rightarrow> (thrown + string) option res" where
  "R2_get env path =
     (case R2 env of
        None \<Rightarrow> seq (lift (getprop JUndefined ''get'')) (\<lambda>_. ret None)
      | Some bucket \<Rightarrow> called (R2_get_call path) (r2_get bucket path))"

section \<open>The legacy branches of fetch\<close>

text \<open>Lines 36 to 43: the prefix of the legacy \<open>list_r2_files\<close>.\<close>

definition legacy_prefix :: "js \<Rightarrow> string res" where
  "legacy_prefix params =
     (let prefix = coalesce (optprop params ''path'') (JStr '''') in
      if prefix = JStr '''' \<or> prefix = JStr ''/'' then ret ''''
      else (case prefix of
              JStr s \<Rightarrow> if \<not> endsWith s ''/'' then ret (s @ ''/'') else ret s
            | _ \<Rightarrow> throw (Error ''prefix.endsWith is not a function'')))"

text \<open>Lines 35 to 56.\<close>

definition legacy_list_r2_files :: "builtins \<Rightarrow> env \<Rightarrow> js \<Rightarrow> response res" where
  "legacy_list_r2_files b env params =
     seq (legacy_prefix params) (\<lambda>prefix.
     seq (R2_list env prefix) (\<lambda>list.
     seq (lift (getprop list ''objects'')) (\<lambda>objects.
     seq (array_map ''list.objects'' objects
            (\<lambda>obj.
               seq (lift (getprop obj ''key'')) (\<lambda>obj_key.
               seq (lift (getprop obj ''size'')) (\<lambda>obj_size.
               seq (lift (getprop obj ''httpMetadata'')) (\<lambda>obj_httpMetadata.
                 ret (JObj [(''key'', obj_key),
                            (''size'', obj_size),
                            (''lastModified'', or_else (optprop obj_httpMetadata ''lastModified'') JNull)]))))))
       (\<lambda>files. ret (legacyJson (text_content (stringify2 b files)) 200)))))"

text \<open>Lines 58 to 80.\<close>

definition legacy_read_r2_file :: "builtins \<Rightarrow> env \<Rightarrow> js \<Rightarrow> response res" where
  \<open>legacy_read_r2_file b env params =
     (let path = optprop params ''path'' in
      if \<not> truthy path
      then ret (legacyJson (text_content (''Error: missing 'path'' @ [CHR 0x27])) 200)
      else
        seq (R2_get env path) (\<lambda>obj.
          case obj of
            None \<Rightarrow>
              seq (lift (to_string b path)) (\<lambda>p.
                ret (legacyJson (text_content (''Error: File "'' @ p @ ''" not found'')) 200))
          | Some obj_text \<Rightarrow>
              seq (called R2_text_call obj_text) (\<lambda>bodyText.
                ret (legacyJson (text_content bodyText) 200))))\<close>

text \<open>Lines 83 to 121.\<close>

definition legacy_search_vectors :: "builtins \<Rightarrow> env \<Rightarrow> js \<Rightarrow> response res" where
  "legacy_search_vectors b env params =
     (let query = optprop params ''query'';
          topK = coalesce (optprop params ''topK'') (JNum (Finite 5)) in
      if \<not> truthy query
      then ret (legacyJson (text_content (''Error: missing 'query'' @ [CHR 0x27])) 200)
      else
        try_catch
          (seq (searchVectors env query topK) (\<lambda>matches.
             ret (legacyJson (text_content (stringify2 b matches)) 200)))
          (\<lambda>e.
             seq (lift (thrown_message e)) (\<lambda>e_message.
             seq (lift (to_string b e_message)) (\<lambda>msg.
               ret (legacyJson (text_content (''Error running search_vectors: '' @ msg)) 200)))))"

section \<open>The handler of JSON-RPC requests\<close>

text \<open>The fixed results of \<open>initialize\<close> and \<open>tools/list\<close>.\<close>

definition initialize_result :: js where
  "initialize_result =
     JObj [(''protocolVersion'', JStr ''2024-11-05''),
           (''capabilities'', JObj [(''tools'', JObj [])]),
           (''serverInfo'', JObj [(''name'', JStr ''gencloud-qa-mcp''), (''version'', JStr ''0.1.0'')]),
           (''instructions'', JStr ''This server exposes tools for listing and reading files from an R2 bucket and performing semantic search over a Cloudflare Vectorize index.'')]"

definition tools_list_result :: js where
  "tools_list_result =
     JObj [(''tools'', JArr [
       JObj [(''name'', JStr ''list_r2_files''),
             (''description'', JStr ''List files in the bound R2 bucket under an optional prefix path.''),
             (''inputSchema'', JObj [
                (''type'', JStr ''object''),
                (''properties'', JObj [
                   (''path'', JObj [
                      (''type'', JStr ''string''),
                      (''description'', JStr ''Optional prefix/folder to list under. Example: 'logs/2025/'.'')])]),
                (''additionalProperties'', JBool False)])],
       JObj [(''name'', JStr ''read_r2_file''),
             (''description'', JStr ''Read a text file from the bound R2 bucket.''),
             (''inputSchema'', JObj [
                (''type'', JStr ''object''),
                (''properties'', JObj [
                   (''path'', JObj [
                      (''type'', JStr ''string''),
                      (''description'', JStr ''Full key/path of the file in R2.'')])]),
                (''required'', JArr [JStr ''path'']),
                (''additionalProperties'', JBool False)])],
       JObj [(''name'', JStr ''search_vectors''),
             (''description'', JStr ''Semantic search over the Cloudflare Vectorize index. Returns the most relevant chunks with metadata.''),
             (''inputSchema'', JObj [
                (''type'', JStr ''object''),
                (''properties'', JObj [
                   (''query'', JObj [
                      (''type'', JStr ''string''),
                      (''description'', JStr ''Natural language search query.'')]),
                   (''topK'', JObj [
                      (''type'', JStr ''number''),
                      (''description'', JStr ''Number of top results to return (default: 5).'')])]),
                (''required'', JArr [JStr ''query'']),
                (''additionalProperties'', JBool False)])]])]"

text \<open>Lines 231 to 238: the prefix of \<open>list_r2_files\<close> under \<open>tools/call\<close>.\<close>

definition mcp_prefix :: "js \<Rightarrow> string res" where
  "mcp_prefix args =
     seq (lift (getprop args ''path'')) (\<lambda>args_path.
       let prefix = coalesce args_path (JStr '''') in
       if prefix = JStr '''' \<or> prefix = JStr ''/'' then ret ''''
       else (case prefix of
               JStr s \<Rightarrow> if \<not> endsWith s ''/'' then ret (s @ ''/'') else ret s
             | _ \<Rightarrow> throw (Error ''prefix.endsWith is not a function'')))"

text \<open>Lines 230 to 259.\<close>

definition mcp_list_r2_files :: "builtins \<Rightarrow> env \<Rightarrow> js \<Rightarrow> js \<Rightarrow> response res" where
  "mcp_list_r2_files b env rid args =
     seq (mcp_prefix args) (\<lambda>prefix.
     seq (R2_list env prefix) (\<lambda>list.
     seq (lift (getprop list ''objects'')) (\<lambda>objects.
     seq (array_map ''list.objects'' objects
            (\<lambda>obj.
               seq (lift (getprop obj ''key'')) (\<lambda>obj_key.
               seq (lift (getprop obj ''size'')) (\<lambda>obj_size.
               seq (lift (getprop obj ''httpMetadata'')) (\<lambda>obj_httpMetadata.
                 ret (JObj [(''key'', obj_key),
                            (''size'', obj_size),
                            (''lastModified'', or_else (optprop obj_httpMetadata ''lastModified'') JNull)]))))))
       (\<lambda>files. ret (jsonRpcResult rid (text_content (stringify2 b files)) 200)))))"

text \<open>Lines 262 to 308.\<close>

definition mcp_read_r2_file :: "builtins \<Rightarrow> env \<Rightarrow> js \<Rightarrow> js \<Rightarrow> response res" where
  \<open>mcp_read_r2_file b env rid args =
     seq (lift (getprop args ''path'')) (\<lambda>path.
       if \<not> truthy path
       then ret (jsonRpcResult rid (text_content ''Error: missing 'path' argument'') 200)
       else
         seq (R2_get env path) (\<lambda>obj.
           case obj of
             None \<Rightarrow>
               seq (lift (to_string b path)) (\<lambda>p.
                 ret (jsonRpcResult rid (text_content (''Error: File "'' @ p @ ''" not found'')) 200))
           | Some obj_text \<Rightarrow>
               seq (called R2_text_call obj_text) (\<lambda>bodyText.
                 ret (jsonRpcResult rid (text_content bodyText) 200))))\<close>

text \<open>Lines 311 to 361.\<close>

definition mcp_search_vectors :: "builtins \<Rightarrow> env \<Rightarrow> js \<Rightarrow> js \<Rightarrow> response res" where
  "mcp_search_vectors b env rid args =
     seq (lift (getprop args ''query'')) (\<lambda>query.
     seq (lift (getprop args ''topK'')) (\<lambda>args_topK.
       let topK = coalesce args_topK (JNum (Finite 5)) in
       if \<not> truthy query
       then ret (jsonRpcResult rid (text_content ''Error: missing 'query' argument'') 200)
       else
         try_catch
           (seq (searchVectors env query topK) (\<lambda>matches.
              ret (jsonRpcResult rid (text_content (stringify2 b matches)) 200)))
           (\<lambda>e.
              seq (lift (thrown_message e)) (\<lambda>e_message.
              seq (lift (to_string b e_message)) (\<lambda>msg.
                ret (jsonRpcResult rid (text_content (''Error running search_vectors: '' @ msg)) 200))))))"

text \<open>\<open>handleJsonRpc(body, env)\<close>.\<close>

definition handleJsonRpc :: "builtins \<Rightarrow> js \<Rightarrow> env \<Rightarrow> response res" where
  "handleJsonRpc b body env =
     seq (lift (getprop body ''id'')) (\<lambda>rid.
     seq (lift (getprop body ''method'')) (\<lambda>method.
     seq (lift (getprop body ''params'')) (\<lambda>params.
       if method = JStr ''initialize'' then ret (jsonRpcResult rid initialize_result 200)
       else if method = JStr ''tools/list'' then ret (jsonRpcResult rid tools_list_result 200)
       else if method = JStr ''tools/call'' then
         (let toolName = optprop params ''name'';
              args = or_else (optprop params ''arguments'') (JObj []) in
          if \<not> truthy toolName
          then ret (jsonRpcError rid (- 32602) ''Missing tool name in params.name'' 200)
          else if toolName = JStr ''list_r2_files'' then mcp_list_r2_files b env rid args
          else if toolName = JStr ''read_r2_file'' then mcp_read_r2_file b env rid args
          else if toolName = JStr ''search_vectors'' then mcp_search_vectors b env rid args
          else
            seq (lift (to_string b toolName)) (\<lambda>name.
              ret (jsonRpcError rid (- 32601) (''Unknown tool: '' @ name) 200)))
       else
         seq (lift (to_string b method)) (\<lambda>name.
           ret (jsonRpcError rid (- 32601) (''Unknown method: '' @ name) 200)))))"

section \<open>The dispatcher\<close>

text \<open>The block under \<open>try\<close> in \<open>fetch\<close> (lines 6 to 126).\<close>

definition fetch_try :: "builtins \<Rightarrow> request \<Rightarrow> env \<Rightarrow> response res" where
  "fetch_try b request env =
     (if http_method request = ''GET''
      then ret \<lparr> payload = Plain ''MCP Worker is running. Send JSON-RPC 2.0 via POST.'',
                 status = 200, headers = [] \<rparr>
      else if http_method request \<noteq> ''POST''
      then ret (jsonRpcError JNull (- 32600) ''Invalid request method (POST required)'' 200)
      else
        (case json_body request of
           None \<Rightarrow> ret (jsonRpcError JNull (- 32700) ''Parse error: invalid JSON'' 200)
         | Some body \<Rightarrow>
             if truthy body \<and> optprop body ''jsonrpc'' = JStr ''2.0''
             then handleJsonRpc b body env
             else
               (let method = optprop (or_else body (JObj [])) ''method'';
                    params = optprop (or_else body (JObj [])) ''params'' in
                if method = JStr ''list_r2_files'' then legacy_list_r2_files b env params
                else if method = JStr ''read_r2_file'' then legacy_read_r2_file b env params
                else if method = JStr ''search_vectors'' then legacy_search_vectors b env params
                else
                  seq (lift (to_string b method)) (\<lambda>name.
                    ret (legacyJson (text_content (''Unknown method: '' @ name)) 200)))))"

text \<open>The \<open>catch\<close> block of \<open>fetch\<close> (lines 127 to 130). Reading \<open>err.message\<close> and
  converting it to a string can throw; then the block throws.\<close>

definition catch_block :: "builtins \<Rightarrow> thrown \<Rightarrow> response res" where
  "catch_block b err =
     seq (lift (thrown_message err)) (\<lambda>err_message.
     seq (lift (to_string b err_message)) (\<lambda>msg.
       ret (jsonRpcError JNull (- 32603) (''Internal error: '' @ msg) 200)))"

definition catch_all :: "builtins \<Rightarrow> response res \<Rightarrow> response res" where
  "catch_all b outcome = try_catch outcome (catch_block b)"

text \<open>
  \<open>fetch(request, env, ctx)\<close>. The outcome \<open>Inr r\<close> is the response \<open>r\<close>; the outcome
  \<open>Inl e\<close> is a rejected promise: the worker gives no response.
\<close>

definition fetch :: "builtins \<Rightarrow> request \<Rightarrow> env \<Rightarrow> response res" where
  "fetch b request env = catch_all b (fetch_try b request env)"

section \<open>Kinds of requests\<close>

text \<open>
  A JSON-RPC request is a POST whose parsed body is an object with \<open>jsonrpc\<close> equal to
  \<open>"2.0"\<close>; it carries an \<open>id\<close>, a \<open>method\<close> and \<open>params\<close>. Every other POST
  with a parsed body is a legacy request; its \<open>method\<close> and \<open>params\<close> are read the same
  way (and are \<open>undefined\<close> when the body is no object).
\<close>

definition jsonrpc_request :: "js \<Rightarrow> js \<Rightarrow> js \<Rightarrow> request \<Rightarrow> bool" where
  "jsonrpc_request rid method params request =
     (http_method request = ''POST'' \<and>
      (case json_body request of
         Some (JObj kvs) \<Rightarrow>
           own kvs ''jsonrpc'' = JStr ''2.0'' \<and> own kvs ''id'' = rid \<and>
           own kvs ''method'' = method \<and> own kvs ''params'' = params
       | _ \<Rightarrow> False))"

definition legacy_request :: "js \<Rightarrow> js \<Rightarrow> request \<Rightarrow> bool" where
  "legacy_request method params request =
     (http_method request = ''POST'' \<and>
      (case json_body request of
         Some body \<Rightarrow>
           optprop body ''jsonrpc'' \<noteq> JStr ''2.0'' \<and>
           optprop body ''method'' = method \<and> optprop body ''params'' = params
       | None \<Rightarrow> False))"

section \<open>Example bindings\<close>

text \<open>
  Values for the examples below: stand-ins for the two builtins (an empty array prints as
  \<open>[]\<close>), a bucket with no objects, a bucket whose operations throw, and a request with
  a given body.
\<close>

definition example_builtins :: builtins where
  "example_builtins =
     \<lparr> stringify2 = (\<lambda>v. if v = JArr [] then ''[]'' else ''[ ... ]''),
       number_to_string = (\<lambda>n. if n = Finite 0 then ''0'' else ''(number)'') \<rparr>"

definition empty_bucket_env :: env where
  "empty_bucket_env =
     \<lparr> R2 = Some \<lparr> r2_list = (\<lambda>prefix. Inr (JObj [(''objects'', JArr [])])),
                      r2_get = (\<lambda>key. Inr None) \<rparr>,
       VECTOR_INDEX = None, AI = None \<rparr>"

definition failing_bucket_env :: env where
  "failing_bucket_env =
     \<lparr> R2 = Some \<lparr> r2_list = (\<lambda>prefix. Inl (Error ''bucket unavailable'')),
                      r2_get = (\<lambda>key. Inl (Error ''bucket unavailable'')) \<rparr>,
       VECTOR_INDEX = None, AI = None \<rparr>"

definition post :: "js \<Rightarrow> request" where
  "post v = \<lparr> http_method = ''POST'', json_body = Some v \<rparr>"

definition tools_call_body :: "js \<Rightarrow> js \<Rightarrow> js \<Rightarrow> js" where
  "tools_call_body rid name arguments =
     JObj [(''jsonrpc'', JStr ''2.0''), (''id'', rid), (''method'', JStr ''tools/call''),
           (''params'', JObj [(''name'', name), (''arguments'', arguments)])]"

definition legacy_body :: "js \<Rightarrow> js \<Rightarrow> js" where
  "legacy_body method params = JObj [(''method'', method), (''params'', params)]"

section \<open>Definitions for the claims\<close>

text \<open>
  The prefix as the specification words it: an empty path or \<open>"/"\<close> becomes the empty
  prefix; any other path that does not end in \<open>/\<close> gets a \<open>/\<close> appended.
\<close>

definition normalize_prefix :: "string \<Rightarrow> string" where
  "normalize_prefix p =
     (if p = '''' \<or> p = ''/'' then '''' else if endsWith p ''/'' then p else p @ ''/'')"

text \<open>
  The match record as the specification words it: \<open>id\<close> and \<open>score\<close> passed through,
  \<open>source\<close> and \<open>text\<close> taken from the nested metadata, and the metadata itself, an
  empty mapping when the match has none.
\<close>

definition match_record :: "js \<Rightarrow> js" where
  "match_record m =
     JObj [(''id'', optprop m ''id''),
           (''score'', optprop m ''score''),
           (''source'', optprop (optprop m ''metadata'') ''source''),
           (''text'', optprop (optprop m ''metadata'') ''text''),
           (''metadata'', or_else (optprop m ''metadata'') (JObj []))]"

text \<open>The bindings of the search example: the embedding is \<open>[0.1, 0.2]\<close> and the index
  answers with one match.\<close>

definition example_search_env :: env where
  "example_search_env =
     \<lparr> R2 = None,
       VECTOR_INDEX = Some (\<lambda>embedding options.
         Inr (JObj [(''matches'', JArr [
           JObj [(''id'', JStr ''a''), (''score'', JNum (Finite (9 / 10))),
                 (''metadata'', JObj [(''source'', JStr ''s''), (''text'', JStr ''t'')])]])])),
       AI = Some (\<lambda>model input.
         Inr (JObj [(''data'', JArr [JArr [JNum (Finite (1 / 10)), JNum (Finite (2 / 10))]])])) \<rparr>"

text \<open>A bucket that holds one object, \<open>notes.txt\<close>, with the content \<open>line one\<close>.\<close>

definition one_file_env :: env where
  "one_file_env =
     \<lparr> R2 = Some \<lparr> r2_list = (\<lambda>prefix. Inr (JObj [(''objects'', JArr [])])),
                      r2_get = (\<lambda>key. if key = JStr ''notes.txt'' then Inr (Some (Inr ''line one''))
                                      else Inr None) \<rparr>,
       VECTOR_INDEX = None, AI = None \<rparr>"

text \<open>
  What a client reads in a response: the code of the error object, and the text of the
  first content block (under \<open>result\<close> in a JSON-RPC result, at the top of a legacy
  response). Both are \<open>undefined\<close> when the body has no such field.
\<close>

definition error_code :: "response \<Rightarrow> js" where
  "error_code r =
     (case payload r of
        Plain s \<Rightarrow> JUndefined
      | Json v \<Rightarrow> optprop (optprop v ''error'') ''code'')"

definition inner_text :: "response \<Rightarrow> js" where
  "inner_text r =
     (case payload r of
        Plain s \<Rightarrow> JUndefined
      | Json v \<Rightarrow>
          optprop (optindex0 (optprop (if optprop v ''result'' = JUndefined then v
                                       else optprop v ''result'') ''content'')) ''text'')"

text \<open>
  The three envelopes of the specification, read on the body as it is sent: the JSON-RPC
  result \<open>{jsonrpc: "2.0", id, result}\<close>, the JSON-RPC error
  \<open>{jsonrpc: "2.0", id, error: {code, message}}\<close> with a number and a string, and the
  legacy content \<open>{content: [{type: "text", text}]}\<close> with a string. The \<open>id\<close> is the
  one of the request, echoed: the specification lets a request have none, and then the
  body has none either.
\<close>

definition is_jsonrpc_result :: "js \<Rightarrow> bool" where
  "is_jsonrpc_result v =
     (case v of
        JObj kvs \<Rightarrow>
          (map fst kvs = [''jsonrpc'', ''id'', ''result''] \<or> map fst kvs = [''jsonrpc'', ''result'']) \<and>
          own kvs ''jsonrpc'' = JStr ''2.0''
      | _ \<Rightarrow> False)"

definition is_code_and_message :: "js \<Rightarrow> bool" where
  "is_code_and_message v =
     (case v of
        JObj [(k1, JNum code), (k2, JStr msg)] \<Rightarrow> k1 = ''code'' \<and> k2 = ''message''
      | _ \<Rightarrow> False)"

definition is_jsonrpc_error :: "js \<Rightarrow> bool" where
  "is_jsonrpc_error v =
     (case v of
        JObj kvs \<Rightarrow>
          (map fst kvs = [''jsonrpc'', ''id'', ''error''] \<or> map fst kvs = [''jsonrpc'', ''error'']) \<and>
          own kvs ''jsonrpc'' = JStr ''2.0'' \<and>
          is_code_and_message (own kvs ''error'')
      | _ \<Rightarrow> False)"

definition is_legacy_content :: "js \<Rightarrow> bool" where
  "is_legacy_content v =
     (case v of
        JObj [(k, JArr [JObj [(k1, JStr ty), (k2, JStr t)]])] \<Rightarrow>
          k = ''content'' \<and> k1 = ''type'' \<and> ty = ''text'' \<and> k2 = ''text''
      | _ \<Rightarrow> False)"

text \<open>A response at status 200 whose body is exactly one of the three envelopes.\<close>

definition envelope :: "response \<Rightarrow> bool" where
  "envelope r =
     (status r = 200 \<and>
      (case payload r of
         Plain s \<Rightarrow> False
       | Json v \<Rightarrow>
           length (filter (\<lambda>shape. shape v) [is_jsonrpc_result, is_jsonrpc_error, is_legacy_content]) = 1))"

definition returns_envelope :: "response res \<Rightarrow> bool" where
  "returns_envelope m = (case fst m of Inl e \<Rightarrow> True | Inr r \<Rightarrow> envelope r)"

text \<open>
  The answers of the two paths to the same tool call agree when both carry the same text,
  the legacy one in a legacy content and the other in the JSON-RPC result with the id of
  the request, or when both are the same internal error.
\<close>

definition same_content :: "js \<Rightarrow> response \<Rightarrow> response \<Rightarrow> bool" where
  "same_content rid legacy mcp =
     (case inner_text legacy of
        JStr t \<Rightarrow>
          legacy = legacyJson (text_content t) 200 \<and> mcp = jsonRpcResult rid (text_content t) 200
      | _ \<Rightarrow> error_code legacy = JNum (Finite (- 32603)) \<and> mcp = legacy)"

text \<open>The same on the outcomes of \<open>fetch\<close>: two responses that agree, or the same rejection;
  and the text a client reads in an outcome.\<close>

definition same_outcome :: "js \<Rightarrow> thrown + response \<Rightarrow> thrown + response \<Rightarrow> bool" where
  "same_outcome rid legacy mcp =
     (case legacy of
        Inl e \<Rightarrow> mcp = Inl e
      | Inr l \<Rightarrow> (case mcp of Inl e \<Rightarrow> False | Inr m \<Rightarrow> same_content rid l m))"

definition outcome_text :: "thrown + response \<Rightarrow> js" where
  "outcome_text outcome = (case outcome of Inl e \<Rightarrow> JUndefined | Inr r \<Rightarrow> inner_text r)"

text \<open>Bindings whose operations all reject with \<open>null\<close>.\<close>

definition null_rejecting_env :: env where
  "null_rejecting_env =
     \<lparr> R2 = Some \<lparr> r2_list = (\<lambda>prefix. Inl (Thrown JNull)),
                      r2_get = (\<lambda>key. Inl (Thrown JNull)) \<rparr>,
       VECTOR_INDEX = Some (\<lambda>embedding options. Inl (Thrown JNull)),
       AI = Some (\<lambda>model input. Inl (Thrown JNull)) \<rparr>"

text \<open>Two computations that make the same calls and either throw the same error or return
  related values.\<close>

definition agree :: "('a \<Rightarrow> 'b \<Rightarrow> bool) \<Rightarrow> 'a res \<Rightarrow> 'b res \<Rightarrow> bool" where
  "agree R m1 m2 =
     (snd m1 = snd m2 \<and>
      (case fst m1 of
         Inl e \<Rightarrow> fst m2 = Inl e
       | Inr x \<Rightarrow> (case fst m2 of Inl e \<Rightarrow> False | Inr y \<Rightarrow> R x y)))"


section \<open>Sequencing and routing\<close>

lemma seq_ret [simp]: "seq (ret x) f = f x"
  by (simp add: seq_def ret_def split: prod.splits)

lemma seq_throw [simp]: "seq (throw e) f = throw e"
  by (simp add: seq_def throw_def)

lemma seq_lift_Inr [simp]: "seq (lift (Inr x)) f = f x"
  by (simp add: seq_def lift_def split: prod.splits)

lemma seq_lift_Inl [simp]: "seq (lift (Inl e)) f = throw e"
  by (simp add: seq_def lift_def throw_def)

lemma optprop_or_else_empty [simp]: "optprop (or_else v (JObj [])) k = optprop v k"
  by (cases v) (simp_all add: or_else_def own_def)

lemma getprop_or_else_empty [simp]: "getprop (or_else v (JObj [])) k = Inr (optprop v k)"
  by (cases v) (simp_all add: or_else_def own_def)

text \<open>How fetch routes a JSON-RPC request and a legacy request.\<close>

lemma jsonrpc_requestE:
  assumes "jsonrpc_request rid method params request"
  obtains kvs where "http_method request = ''POST''" and "json_body request = Some (JObj kvs)"
    and "own kvs ''jsonrpc'' = JStr ''2.0''" and "own kvs ''id'' = rid"
    and "own kvs ''method'' = method" and "own kvs ''params'' = params"
proof (cases "json_body request")
  case None
  with assms show ?thesis by (simp add: jsonrpc_request_def)
next
  case (Some body)
  with assms that show ?thesis
    by (cases body) (simp_all add: jsonrpc_request_def)
qed

lemma fetch_try_jsonrpc:
  assumes "jsonrpc_request rid method params request"
  shows "fetch_try b request env =
     (if method = JStr ''initialize'' then ret (jsonRpcResult rid initialize_result 200)
      else if method = JStr ''tools/list'' then ret (jsonRpcResult rid tools_list_result 200)
      else if method = JStr ''tools/call'' then
        (if \<not> truthy (optprop params ''name'')
          then ret (jsonRpcError rid (- 32602) ''Missing tool name in params.name'' 200)
          else if optprop params ''name'' = JStr ''list_r2_files''
            then mcp_list_r2_files b env rid (or_else (optprop params ''arguments'') (JObj []))
          else if optprop params ''name'' = JStr ''read_r2_file''
            then mcp_read_r2_file b env rid (or_else (optprop params ''arguments'') (JObj []))
          else if optprop params ''name'' = JStr ''search_vectors''
            then mcp_search_vectors b env rid (or_else (optprop params ''arguments'') (JObj []))
          else
            seq (lift (to_string b (optprop params ''name''))) (\<lambda>name.
              ret (jsonRpcError rid (- 32601) (''Unknown tool: '' @ name) 200)))
       else
         seq (lift (to_string b method)) (\<lambda>name.
           ret (jsonRpcError rid (- 32601) (''Unknown method: '' @ name) 200)))"
proof -
  from assms obtain kvs where "http_method request = ''POST''"
    and "json_body request = Some (JObj kvs)"
    and "own kvs ''jsonrpc'' = JStr ''2.0''" and "own kvs ''id'' = rid"
    and "own kvs ''method'' = method" and "own kvs ''params'' = params"
    by (rule jsonrpc_requestE)
  then show ?thesis
    by (simp add: fetch_try_def handleJsonRpc_def Let_def)
qed


lemma fetch_try_legacy:
  assumes "legacy_request method params request"
  shows "fetch_try b request env =
     (if method = JStr ''list_r2_files'' then legacy_list_r2_files b env params
      else if method = JStr ''read_r2_file'' then legacy_read_r2_file b env params
      else if method = JStr ''search_vectors'' then legacy_search_vectors b env params
      else
        seq (lift (to_string b method)) (\<lambda>name.
          ret (legacyJson (text_content (''Unknown method: '' @ name)) 200)))"
proof -
  from assms obtain body where "http_method request = ''POST''"
    and "json_body request = Some body" and "optprop body ''jsonrpc'' \<noteq> JStr ''2.0''"
    and "optprop body ''method'' = method" and "optprop body ''params'' = params"
    by (cases "json_body request") (simp_all add: legacy_request_def)
  then show ?thesis
    by (simp add: fetch_try_def Let_def)
qed

lemma post_jsonrpc [simp]:
  "jsonrpc_request rid (JStr ''tools/call'') (JObj [(''name'', name), (''arguments'', arguments)])
     (post (tools_call_body rid name arguments))"
  by (simp add: jsonrpc_request_def post_def tools_call_body_def own_def)

lemma post_legacy [simp]: "legacy_request method params (post (legacy_body method params))"
  by (simp add: legacy_request_def post_def legacy_body_def own_def)

text \<open>The value and the calls of a computation.\<close>

lemma fst_seq: "fst (seq m f) = (case fst m of Inl e \<Rightarrow> Inl e | Inr x \<Rightarrow> fst (f x))"
  by (cases m) (simp add: seq_def split: sum.splits prod.splits)

lemma snd_seq: "snd (seq m f) = snd m @ (case fst m of Inl e \<Rightarrow> [] | Inr x \<Rightarrow> snd (f x))"
  by (cases m) (simp add: seq_def split: sum.splits prod.splits)

lemma snd_simps [simp]:
  "snd (ret x) = []" "snd (throw e) = []" "snd (lift r) = []" "snd (called c r) = [c]"
  by (simp_all add: ret_def throw_def lift_def called_def)

lemma fst_simps [simp]:
  "fst (ret x) = Inr x" "fst (throw e) = Inl e" "fst (lift r) = r" "fst (called c r) = r"
  by (simp_all add: ret_def throw_def lift_def called_def)

lemma fst_try_catch:
  "fst (try_catch m h) = (case fst m of Inl e \<Rightarrow> fst (h e) | Inr x \<Rightarrow> Inr x)"
  by (cases m) (simp add: try_catch_def split: sum.splits prod.splits)

lemma snd_try_catch:
  "snd (try_catch m h) = snd m @ (case fst m of Inl e \<Rightarrow> snd (h e) | Inr x \<Rightarrow> [])"
  by (cases m) (simp add: try_catch_def split: sum.splits prod.splits)

text \<open>The catch block of fetch: it calls no binding, and it answers an \<open>Error\<close> object with
  the internal error.\<close>

lemma snd_catch_block [simp]: "snd (catch_block b e) = []"
  by (simp add: catch_block_def snd_seq split: sum.splits)

lemma catch_block_Error [simp]:
  "catch_block b (Error msg) = ret (jsonRpcError JNull (- 32603) (''Internal error: '' @ msg) 200)"
  by (simp add: catch_block_def)

lemma catch_block_response:
  assumes "fst (catch_block b e) = Inr r"
  shows "\<exists>msg. r = jsonRpcError JNull (- 32603) (''Internal error: '' @ msg) 200"
  using assms
  by (auto simp: catch_block_def fst_seq split: sum.splits)


lemma catch_all_ret [simp]: "catch_all b (ret r) = ret r"
  by (simp add: catch_all_def try_catch_def ret_def)

lemma catch_all_pair_Inr [simp]: "catch_all b (Inr r, cs) = (Inr r, cs)"
  by (simp add: catch_all_def try_catch_def)

lemma catch_all_pair_Inl: "catch_all b (Inl e, cs) = (fst (catch_block b e), cs)"
proof (cases "catch_block b e")
  case (Pair r cs')
  with snd_catch_block [of b e] have "cs' = []" by simp
  with Pair show ?thesis by (simp add: catch_all_def try_catch_def)
qed


lemma snd_catch_all [simp]: "snd (catch_all b m) = snd m"
  by (cases m) (simp add: catch_all_def snd_try_catch split: sum.splits)

lemma fetch_tools_call:
  assumes "jsonrpc_request rid (JStr ''tools/call'') params request"
  shows "fetch b request env =
     catch_all b
       (if \<not> truthy (optprop params ''name'')
        then ret (jsonRpcError rid (- 32602) ''Missing tool name in params.name'' 200)
        else if optprop params ''name'' = JStr ''list_r2_files''
          then mcp_list_r2_files b env rid (or_else (optprop params ''arguments'') (JObj []))
        else if optprop params ''name'' = JStr ''read_r2_file''
          then mcp_read_r2_file b env rid (or_else (optprop params ''arguments'') (JObj []))
        else if optprop params ''name'' = JStr ''search_vectors''
          then mcp_search_vectors b env rid (or_else (optprop params ''arguments'') (JObj []))
        else
          seq (lift (to_string b (optprop params ''name''))) (\<lambda>name.
            ret (jsonRpcError rid (- 32601) (''Unknown tool: '' @ name) 200)))"
  by (simp add: fetch_def fetch_try_jsonrpc [OF assms])

lemma fetch_mcp_list:
  assumes "jsonrpc_request rid (JStr ''tools/call'') params request"
    and "optprop params ''name'' = JStr ''list_r2_files''"
  shows "fetch b request env =
     catch_all b (mcp_list_r2_files b env rid (or_else (optprop params ''arguments'') (JObj [])))"
  by (simp add: fetch_tools_call [OF assms(1)] assms(2))

lemma fetch_mcp_read:
  assumes "jsonrpc_request rid (JStr ''tools/call'') params request"
    and "optprop params ''name'' = JStr ''read_r2_file''"
  shows "fetch b request env =
     catch_all b (mcp_read_r2_file b env rid (or_else (optprop params ''arguments'') (JObj [])))"
  by (simp add: fetch_tools_call [OF assms(1)] assms(2))

lemma fetch_mcp_search:
  assumes "jsonrpc_request rid (JStr ''tools/call'') params request"
    and "optprop params ''name'' = JStr ''search_vectors''"
  shows "fetch b request env =
     catch_all b (mcp_search_vectors b env rid (or_else (optprop params ''arguments'') (JObj [])))"
  by (simp add: fetch_tools_call [OF assms(1)] assms(2))

lemma fetch_legacy_list:
  assumes "legacy_request (JStr ''list_r2_files'') params request"
  shows "fetch b request env = catch_all b (legacy_list_r2_files b env params)"
  by (simp add: fetch_def fetch_try_legacy [OF assms])

lemma fetch_legacy_read:
  assumes "legacy_request (JStr ''read_r2_file'') params request"
  shows "fetch b request env = catch_all b (legacy_read_r2_file b env params)"
  by (simp add: fetch_def fetch_try_legacy [OF assms])

lemma fetch_legacy_search:
  assumes "legacy_request (JStr ''search_vectors'') params request"
  shows "fetch b request env = catch_all b (legacy_search_vectors b env params)"
  by (simp add: fetch_def fetch_try_legacy [OF assms])

text \<open>The two missing-argument branches of each path.\<close>

lemma mcp_read_missing:
  "\<not> truthy (optprop args ''path'') \<Longrightarrow>
   mcp_read_r2_file b env rid (or_else args (JObj [])) =
     ret (jsonRpcResult rid (text_content ''Error: missing 'path' argument'') 200)"
  by (simp add: mcp_read_r2_file_def)

lemma mcp_search_missing:
  "\<not> truthy (optprop args ''query'') \<Longrightarrow>
   mcp_search_vectors b env rid (or_else args (JObj [])) =
     ret (jsonRpcResult rid (text_content ''Error: missing 'query' argument'') 200)"
  by (simp add: mcp_search_vectors_def Let_def)

lemma legacy_read_missing:
  "\<not> truthy (optprop params ''path'') \<Longrightarrow>
   legacy_read_r2_file b env params =
     ret (legacyJson (text_content (''Error: missing 'path'' @ [CHR 0x27])) 200)"
  by (simp add: legacy_read_r2_file_def Let_def)

lemma legacy_search_missing:
  "\<not> truthy (optprop params ''query'') \<Longrightarrow>
   legacy_search_vectors b env params =
     ret (legacyJson (text_content (''Error: missing 'query'' @ [CHR 0x27])) 200)"
  by (simp add: legacy_search_vectors_def Let_def)


lemma snd_seq_map: "(\<And>x. snd (f x) = []) \<Longrightarrow> snd (seq_map f xs) = []"
  by (induction xs) (simp_all add: snd_seq split: sum.splits)

lemma snd_array_map: "(\<And>x. snd (f x) = []) \<Longrightarrow> snd (array_map what a f) = []"
  by (cases a) (simp_all add: array_map_def snd_seq snd_seq_map split: sum.splits)

lemma endsWith_append_slash [simp]: "endsWith (s @ ''/'') ''/''"
  by (simp add: endsWith_def)

lemma normalize_prefix_idem: "normalize_prefix (normalize_prefix p) = normalize_prefix p"
  by (simp add: normalize_prefix_def)

lemma legacy_prefix_string:
  "optprop params ''path'' = JStr p \<Longrightarrow> legacy_prefix params = ret (normalize_prefix p)"
  by (simp add: legacy_prefix_def normalize_prefix_def coalesce_def)

lemma mcp_prefix_string:
  "optprop args ''path'' = JStr p \<Longrightarrow>
   mcp_prefix (or_else args (JObj [])) = ret (normalize_prefix p)"
  by (simp add: mcp_prefix_def normalize_prefix_def coalesce_def)

lemma legacy_prefix_nullish:
  "nullish (optprop params ''path'') \<Longrightarrow> legacy_prefix params = ret ''''"
  by (simp add: legacy_prefix_def coalesce_def)

lemma mcp_prefix_nullish:
  "nullish (optprop args ''path'') \<Longrightarrow> mcp_prefix (or_else args (JObj [])) = ret ''''"
  by (simp add: mcp_prefix_def coalesce_def)

lemma snd_R2_list: "R2 env = Some bucket \<Longrightarrow> snd (R2_list env prefix) = [R2_list_call prefix]"
  by (simp add: R2_list_def)

lemma calls_legacy_list:
  "legacy_prefix params = ret prefix \<Longrightarrow> R2 env = Some bucket \<Longrightarrow>
   snd (legacy_list_r2_files b env params) = [R2_list_call prefix]"
  by (simp add: legacy_list_r2_files_def snd_seq snd_R2_list snd_array_map split: sum.splits)

lemma calls_mcp_list:
  "mcp_prefix args = ret prefix \<Longrightarrow> R2 env = Some bucket \<Longrightarrow>
   snd (mcp_list_r2_files b env rid args) = [R2_list_call prefix]"
  by (simp add: mcp_list_r2_files_def snd_seq snd_R2_list snd_array_map split: sum.splits)

lemma getprop_not_nullish: "\<not> nullish v \<Longrightarrow> getprop v k = Inr (optprop v k)"
  by (cases v) simp_all

lemma seq_called_Inr: "seq (called c (Inr x)) f = (fst (f x), c # snd (f x))"
  by (simp add: seq_def called_def split: prod.splits)

lemma seq_map_match_record:
  "list_all (\<lambda>m. \<not> nullish m) ms \<Longrightarrow>
   seq_map (\<lambda>m.
      seq (lift (getprop m ''id'')) (\<lambda>m_id.
      seq (lift (getprop m ''score'')) (\<lambda>m_score.
      seq (lift (getprop m ''metadata'')) (\<lambda>m_metadata.
        ret (JObj [(''id'', m_id),
                   (''score'', m_score),
                   (''source'', optprop m_metadata ''source''),
                   (''text'', optprop m_metadata ''text''),
                   (''metadata'', or_else m_metadata (JObj []))]))))) ms
   = ret (map match_record ms)"
  by (induction ms) (simp_all add: getprop_not_nullish match_record_def)

lemma array_map_match_record:
  "list_all (\<lambda>m. \<not> nullish m) ms \<Longrightarrow>
   array_map what (JArr ms) (\<lambda>m.
      seq (lift (getprop m ''id'')) (\<lambda>m_id.
      seq (lift (getprop m ''score'')) (\<lambda>m_score.
      seq (lift (getprop m ''metadata'')) (\<lambda>m_metadata.
        ret (JObj [(''id'', m_id),
                   (''score'', m_score),
                   (''source'', optprop m_metadata ''source''),
                   (''text'', optprop m_metadata ''text''),
                   (''metadata'', or_else m_metadata (JObj []))])))))
   = ret (JArr (map match_record ms))"
  by (simp add: array_map_def seq_map_match_record)


lemma or_else_truthy: "truthy a \<Longrightarrow> or_else a b = a"
  by (simp add: or_else_def)

lemma or_else_falsy: "\<not> truthy a \<Longrightarrow> or_else a b = b"
  by (simp add: or_else_def)

text \<open>The answers of \<open>read_r2_file\<close> to a string path, on both paths.\<close>

lemma seq_called_Inl: "seq (called c (Inl e)) f = (Inl e, [c])"
  by (simp add: seq_def called_def)

lemma R2_get_Some: "R2 env = Some bucket \<Longrightarrow> R2_get env path = called (R2_get_call path) (r2_get bucket path)"
  by (simp add: R2_get_def)

lemma legacy_read_string:
  assumes "R2 env = Some bucket" and "optprop params ''path'' = JStr p"
  shows "catch_all b (legacy_read_r2_file b env params) =
     (if p = [] then (Inr (legacyJson (text_content (''Error: missing 'path'' @ [CHR 0x27])) 200), [])
      else case r2_get bucket (JStr p) of
        Inl e \<Rightarrow> (fst (catch_block b e), [R2_get_call (JStr p)])
      | Inr None \<Rightarrow> (Inr (legacyJson (text_content (''Error: File '' @ [CHR 0x22] @ p @ [CHR 0x22] @ '' not found'')) 200), [R2_get_call (JStr p)])
      | Inr (Some (Inr content)) \<Rightarrow> (Inr (legacyJson (text_content content) 200), [R2_get_call (JStr p), R2_text_call])
      | Inr (Some (Inl e)) \<Rightarrow> (fst (catch_block b e), [R2_get_call (JStr p), R2_text_call]))"
  using assms
  by (simp add: legacy_read_r2_file_def Let_def R2_get_Some seq_called_Inr seq_called_Inl
      catch_all_pair_Inr catch_all_pair_Inl ret_def split: sum.splits option.splits)

lemma mcp_read_string:
  assumes "R2 env = Some bucket" and "optprop args ''path'' = JStr p"
  shows "catch_all b (mcp_read_r2_file b env rid (or_else args (JObj []))) =
     (if p = [] then (Inr (jsonRpcResult rid (text_content ''Error: missing 'path' argument'') 200), [])
      else case r2_get bucket (JStr p) of
        Inl e \<Rightarrow> (fst (catch_block b e), [R2_get_call (JStr p)])
      | Inr None \<Rightarrow> (Inr (jsonRpcResult rid (text_content (''Error: File '' @ [CHR 0x22] @ p @ [CHR 0x22] @ '' not found'')) 200), [R2_get_call (JStr p)])
      | Inr (Some (Inr content)) \<Rightarrow> (Inr (jsonRpcResult rid (text_content content) 200), [R2_get_call (JStr p), R2_text_call])
      | Inr (Some (Inl e)) \<Rightarrow> (fst (catch_block b e), [R2_get_call (JStr p), R2_text_call]))"
  using assms
  by (simp add: mcp_read_r2_file_def Let_def R2_get_Some seq_called_Inr seq_called_Inl
      catch_all_pair_Inr catch_all_pair_Inl ret_def split: sum.splits option.splits)

text \<open>A storage failure under \<open>list_r2_files\<close>, and the outcome of \<open>search_vectors\<close>.\<close>

lemma R2_list_Some:
  "R2 env = Some bucket \<Longrightarrow> R2_list env prefix = called (R2_list_call prefix) (r2_list bucket prefix)"
  by (simp add: R2_list_def)

lemma legacy_list_fails:
  assumes "R2 env = Some bucket" and "r2_list bucket prefix = Inl e"
    and "legacy_prefix params = ret prefix"
  shows "catch_all b (legacy_list_r2_files b env params) =
     (fst (catch_block b e), [R2_list_call prefix])"
  using assms
  by (simp add: legacy_list_r2_files_def R2_list_Some seq_called_Inl catch_all_pair_Inl)

lemma mcp_list_fails:
  assumes "R2 env = Some bucket" and "r2_list bucket prefix = Inl e"
    and "mcp_prefix args = ret prefix"
  shows "catch_all b (mcp_list_r2_files b env rid args) =
     (fst (catch_block b e), [R2_list_call prefix])"
  using assms
  by (simp add: mcp_list_r2_files_def R2_list_Some seq_called_Inl catch_all_pair_Inl)

text \<open>
  What the handler of \<open>search_vectors\<close> makes of a thrown value: the text of the error,
  or the error that reading and converting the message throws.
\<close>

lemma handled_search:
  "catch_all b
     (try_catch (seq m (\<lambda>matches. ret (f matches)))
        (\<lambda>e. seq (lift (thrown_message e)) (\<lambda>e_message.
              seq (lift (to_string b e_message)) (\<lambda>msg. ret (g msg))))) =
   (case fst m of
      Inr matches \<Rightarrow> Inr (f matches)
    | Inl e \<Rightarrow>
        (case thrown_message e of
           Inl e' \<Rightarrow> fst (catch_block b e')
         | Inr e_message \<Rightarrow>
             (case to_string b e_message of
                Inl e' \<Rightarrow> fst (catch_block b e')
              | Inr msg \<Rightarrow> Inr (g msg))),
    snd m)"
proof (cases m)
  case (Pair r cs)
  show ?thesis
  proof (cases r)
    case (Inr matches)
    with Pair show ?thesis
      by (simp add: seq_def try_catch_def ret_def catch_all_pair_Inr)
  next
    case (Inl e)
    define X where "X = seq (lift (thrown_message e)) (\<lambda>e_message.
              seq (lift (to_string b e_message)) (\<lambda>msg. ret (g msg)))"
    have sX: "snd X = []"
      by (simp add: X_def snd_seq split: sum.splits)
    have fX: "fst X =
        (case thrown_message e of
           Inl e' \<Rightarrow> Inl e'
         | Inr e_message \<Rightarrow>
             (case to_string b e_message of Inl e' \<Rightarrow> Inl e' | Inr msg \<Rightarrow> Inr (g msg)))"
      by (simp add: X_def fst_seq split: sum.splits)
    have t: "try_catch (seq m (\<lambda>matches. ret (f matches)))
        (\<lambda>e. seq (lift (thrown_message e)) (\<lambda>e_message.
              seq (lift (to_string b e_message)) (\<lambda>msg. ret (g msg)))) = (fst X, cs)"
      using Pair Inl sX
      by (cases X) (simp add: seq_def try_catch_def X_def)
    have c: "catch_all b (fst X, cs) =
        (case fst X of Inl e' \<Rightarrow> fst (catch_block b e') | Inr x \<Rightarrow> Inr x, cs)"
      by (cases "fst X") (simp_all add: catch_all_pair_Inl catch_all_pair_Inr)
    show ?thesis
      unfolding t c
      using Pair Inl fX by (simp split: sum.splits)
  qed
qed

lemma mcp_search_present:
  assumes "truthy (optprop args ''query'')"
  shows "catch_all b (mcp_search_vectors b env rid (or_else args (JObj []))) =
     (case fst (searchVectors env (optprop args ''query'')
                  (coalesce (optprop args ''topK'') (JNum (Finite 5)))) of
        Inr matches \<Rightarrow> Inr (jsonRpcResult rid (text_content (stringify2 b matches)) 200)
      | Inl e \<Rightarrow>
          (case thrown_message e of
             Inl e' \<Rightarrow> fst (catch_block b e')
           | Inr e_message \<Rightarrow>
               (case to_string b e_message of
                  Inl e' \<Rightarrow> fst (catch_block b e')
                | Inr msg \<Rightarrow>
                    Inr (jsonRpcResult rid
                           (text_content (''Error running search_vectors: '' @ msg)) 200))),
      snd (searchVectors env (optprop args ''query'')
             (coalesce (optprop args ''topK'') (JNum (Finite 5)))))"
  using assms
  by (simp add: mcp_search_vectors_def Let_def handled_search cong: sum.case_cong)

lemma legacy_search_present:
  assumes "truthy (optprop params ''query'')"
  shows "catch_all b (legacy_search_vectors b env params) =
     (case fst (searchVectors env (optprop params ''query'')
                  (coalesce (optprop params ''topK'') (JNum (Finite 5)))) of
        Inr matches \<Rightarrow> Inr (legacyJson (text_content (stringify2 b matches)) 200)
      | Inl e \<Rightarrow>
          (case thrown_message e of
             Inl e' \<Rightarrow> fst (catch_block b e')
           | Inr e_message \<Rightarrow>
               (case to_string b e_message of
                  Inl e' \<Rightarrow> fst (catch_block b e')
                | Inr msg \<Rightarrow>
                    Inr (legacyJson
                           (text_content (''Error running search_vectors: '' @ msg)) 200))),
      snd (searchVectors env (optprop params ''query'')
             (coalesce (optprop params ''topK'') (JNum (Finite 5)))))"
  using assms
  by (simp add: legacy_search_vectors_def Let_def handled_search cong: sum.case_cong)

text \<open>The bodies that the helpers send.\<close>

lemma payload_jsonRpcError:
  "payload (jsonRpcError rid code msg st) =
     Json (JObj ((''jsonrpc'', JStr ''2.0'') #
                 (if rid = JUndefined then [] else [(''id'', wire rid)]) @
                 [(''error'', JObj [(''code'', JNum (Finite (of_int code))), (''message'', JStr msg)])]))"
  by (simp add: jsonRpcError_def JSON_stringify_def)

lemma wire_text_content [simp]: "wire (text_content t) = text_content t"
  by (simp add: text_content_def)

lemma payload_jsonRpcResult_text:
  "payload (jsonRpcResult rid (text_content t) st) =
     Json (JObj ((''jsonrpc'', JStr ''2.0'') #
                 (if rid = JUndefined then [] else [(''id'', wire rid)]) @
                 [(''result'', JObj [(''content'', JArr [JObj [(''type'', JStr ''text''), (''text'', JStr t)]])])]))"
  by (simp add: jsonRpcResult_def JSON_stringify_def text_content_def)

lemma payload_legacyJson_text:
  "payload (legacyJson (text_content t) st) =
     Json (JObj [(''content'', JArr [JObj [(''type'', JStr ''text''), (''text'', JStr t)]])])"
  by (simp add: legacyJson_def JSON_stringify_def text_content_def)

lemma status_helpers [simp]:
  "status (jsonRpcResult rid result st) = st" "status (jsonRpcError rid code msg st) = st"
  "status (legacyJson obj st) = st"
  by (simp_all add: jsonRpcResult_def jsonRpcError_def legacyJson_def)

text \<open>Every helper builds one envelope, and every branch returns one or throws.\<close>

lemma text_content_defined [simp]: "text_content t \<noteq> JUndefined"
  by (simp add: text_content_def)

lemma fixed_results_defined [simp]:
  "initialize_result \<noteq> JUndefined" "tools_list_result \<noteq> JUndefined"
  by (simp_all add: initialize_result_def tools_list_result_def)

lemma envelope_jsonRpcResult [simp]:
  "result \<noteq> JUndefined \<Longrightarrow> envelope (jsonRpcResult rid result 200)"
  by (simp add: envelope_def jsonRpcResult_def JSON_stringify_def is_jsonrpc_result_def
      is_jsonrpc_error_def is_legacy_content_def own_def)

lemma envelope_jsonRpcError [simp]: "envelope (jsonRpcError rid code msg 200)"
  by (simp add: envelope_def jsonRpcError_def JSON_stringify_def is_jsonrpc_result_def
      is_jsonrpc_error_def is_legacy_content_def is_code_and_message_def own_def)

lemma envelope_legacyJson [simp]: "envelope (legacyJson (text_content t) 200)"
  by (simp add: envelope_def payload_legacyJson_text is_jsonrpc_result_def
      is_jsonrpc_error_def is_legacy_content_def)

lemma returns_envelope_ret [simp]: "returns_envelope (ret r) = envelope r"
  by (simp add: returns_envelope_def)

lemma returns_envelope_throw [simp]: "returns_envelope (throw e)"
  by (simp add: returns_envelope_def)













text \<open>The two paths run the same steps and wrap the same text.\<close>

lemma inner_text_legacyJson [simp]: "inner_text (legacyJson (text_content t) 200) = JStr t"
  by (simp add: inner_text_def payload_legacyJson_text own_def)

lemma inner_text_jsonRpcResult [simp]: "inner_text (jsonRpcResult rid (text_content t) 200) = JStr t"
  by (simp add: inner_text_def payload_jsonRpcResult_text own_def)

lemma inner_text_jsonRpcError [simp]: "inner_text (jsonRpcError rid code msg 200) = JUndefined"
  by (simp add: inner_text_def payload_jsonRpcError own_def)

lemma error_code_jsonRpcError [simp]:
  "error_code (jsonRpcError rid code msg 200) = JNum (Finite (of_int code))"
  by (simp add: error_code_def payload_jsonRpcError own_def)

lemma same_content_text [simp]:
  "same_content rid (legacyJson (text_content t) 200) (jsonRpcResult rid (text_content t) 200)"
  by (simp add: same_content_def)

lemma same_content_internal_error [simp]:
  "same_content rid (jsonRpcError JNull (- 32603) msg 200) (jsonRpcError JNull (- 32603) msg 200)"
  by (simp add: same_content_def)

lemma same_content_inner_text:
  assumes "same_content rid legacy mcp"
  shows "inner_text legacy = inner_text mcp"
  using assms
  by (cases "inner_text legacy") (simp_all add: same_content_def)

lemma same_outcome_text:
  assumes "same_outcome rid legacy mcp"
  shows "outcome_text legacy = outcome_text mcp"
  using assms same_content_inner_text
  by (auto simp: same_outcome_def outcome_text_def split: sum.splits)

lemma agree_ret [simp]: "agree R (ret x) (ret y) = R x y"
  by (simp add: agree_def)

lemma agree_throw [simp]: "agree R (throw e) (throw e)"
  by (simp add: agree_def)

lemma agree_seq:
  assumes "\<And>x. agree R (f x) (g x)"
  shows "agree R (seq m f) (seq m g)"
proof (cases "fst m")
  case (Inl e)
  then show ?thesis by (simp add: agree_def fst_seq snd_seq)
next
  case (Inr x)
  with assms [of x] show ?thesis
    by (auto simp: agree_def fst_seq snd_seq split: sum.splits)
qed

lemma agree_try_catch:
  assumes "agree R m1 m2" and "\<And>e. agree R (h1 e) (h2 e)"
  shows "agree R (try_catch m1 h1) (try_catch m2 h2)"
proof (cases "fst m1")
  case (Inl e)
  with assms(1) assms(2) [of e] show ?thesis
    by (auto simp: agree_def fst_try_catch snd_try_catch split: sum.splits)
next
  case (Inr x)
  with assms(1) show ?thesis
    by (auto simp: agree_def fst_try_catch snd_try_catch split: sum.splits)
qed

lemma mcp_prefix_eq_legacy_prefix: "mcp_prefix (or_else params (JObj [])) = legacy_prefix params"
  by (simp add: mcp_prefix_def legacy_prefix_def)

lemma agree_list:
  "agree (same_content rid) (legacy_list_r2_files b env params)
     (mcp_list_r2_files b env rid (or_else params (JObj [])))"
  unfolding legacy_list_r2_files_def mcp_list_r2_files_def mcp_prefix_eq_legacy_prefix
  by (intro agree_seq) simp

lemma agree_read:
  "truthy (optprop params ''path'') \<Longrightarrow>
   agree (same_content rid) (legacy_read_r2_file b env params)
     (mcp_read_r2_file b env rid (or_else params (JObj [])))"
  unfolding legacy_read_r2_file_def mcp_read_r2_file_def Let_def
  by (auto intro!: agree_seq split: option.splits)

lemma agree_search:
  "truthy (optprop params ''query'') \<Longrightarrow>
   agree (same_content rid) (legacy_search_vectors b env params)
     (mcp_search_vectors b env rid (or_else params (JObj [])))"
  unfolding legacy_search_vectors_def mcp_search_vectors_def Let_def
  by (auto intro!: agree_seq agree_try_catch)

lemma same_outcome_catch_block: "same_outcome rid (fst (catch_block b e)) (fst (catch_block b e))"
proof (cases "fst (catch_block b e)")
  case (Inl e')
  then show ?thesis by (simp add: same_outcome_def)
next
  case (Inr r)
  with catch_block_response [OF Inr] show ?thesis
    by (auto simp: same_outcome_def)
qed

lemma same_content_catch_all:
  assumes "agree (same_content rid) m1 m2"
  shows "same_outcome rid (fst (catch_all b m1)) (fst (catch_all b m2)) \<and>
         snd (catch_all b m1) = snd (catch_all b m2)"
proof (cases "fst m1")
  case (Inl e)
  with assms have "fst m2 = Inl e" and "snd m1 = snd m2" by (simp_all add: agree_def)
  with Inl same_outcome_catch_block [of rid b e] show ?thesis
    by (cases m1, cases m2) (simp add: catch_all_pair_Inl)
next
  case (Inr l)
  with assms obtain m where "fst m2 = Inr m" and "snd m1 = snd m2" and "same_content rid l m"
    by (auto simp: agree_def split: sum.splits)
  with Inr show ?thesis
    by (cases m1, cases m2) (simp add: catch_all_pair_Inr same_outcome_def)
qed


section \<open>The claims\<close>

subsection \<open>Requests that are refused before any dispatch\<close>

text \<open>
  Claim C8. A request whose HTTP method is neither GET nor POST is answered with the
  JSON-RPC error of code -32600 and id \<open>null\<close> at status 200; a POST whose body does not
  parse as JSON is answered with the JSON-RPC error of code -32700 and id \<open>null\<close> at
  status 200. No binding is called. The last two conjuncts spell out the status and the
  body of such an error response.
\<close>

theorem method_and_parse_errors:
  "(http_method request \<noteq> ''GET'' \<and> http_method request \<noteq> ''POST'' \<longrightarrow>
      fetch b request env =
        (Inr (jsonRpcError JNull (- 32600) ''Invalid request method (POST required)'' 200), [])) \<and>
   (http_method request = ''POST'' \<and> json_body request = None \<longrightarrow>
      fetch b request env = (Inr (jsonRpcError JNull (- 32700) ''Parse error: invalid JSON'' 200), [])) \<and>
   status (jsonRpcError JNull code msg 200) = 200 \<and>
   payload (jsonRpcError JNull code msg 200) =
     Json (JObj [(''jsonrpc'', JStr ''2.0''), (''id'', JNull),
                 (''error'', JObj [(''code'', JNum (Finite (of_int code))), (''message'', JStr msg)])])"
  by (simp add: fetch_def fetch_try_def ret_def payload_jsonRpcError)

theorem method_and_parse_errors_witness:
  "fetch example_builtins \<lparr> http_method = ''DELETE'', json_body = None \<rparr> empty_bucket_env =
     (Inr (jsonRpcError JNull (- 32600) ''Invalid request method (POST required)'' 200), []) \<and>
   fetch example_builtins \<lparr> http_method = ''POST'', json_body = None \<rparr> empty_bucket_env =
     (Inr (jsonRpcError JNull (- 32700) ''Parse error: invalid JSON'' 200), [])"
  using method_and_parse_errors [of "\<lparr> http_method = ''DELETE'', json_body = None \<rparr>" example_builtins empty_bucket_env]
    method_and_parse_errors [of "\<lparr> http_method = ''POST'', json_body = None \<rparr>" example_builtins empty_bucket_env]
  by simp

subsection \<open>Falsy names and arguments\<close>



subsection \<open>The prefix of list_r2_files\<close>

text \<open>
  Claim C4. The prefix that \<open>list_r2_files\<close> queries is a normalization of the path: an
  omitted path, \<open>""\<close> and \<open>"/"\<close> give the empty prefix, \<open>"logs"\<close> gives \<open>"logs/"\<close>,
  \<open>"logs/"\<close> is unchanged, and normalizing twice is normalizing once. The legacy branch
  and the \<open>tools/call\<close> branch compute the same prefix, and it is the prefix with which
  each of them calls the storage.
\<close>

theorem list_prefix_normalization:
  "normalize_prefix '''' = '''' \<and> normalize_prefix ''/'' = '''' \<and>
   normalize_prefix ''logs'' = ''logs/'' \<and> normalize_prefix ''logs/'' = ''logs/'' \<and>
   normalize_prefix (normalize_prefix p) = normalize_prefix p \<and>
   (optprop params ''path'' = JStr p \<longrightarrow>
      legacy_prefix params = ret (normalize_prefix p) \<and>
      mcp_prefix (or_else params (JObj [])) = ret (normalize_prefix p)) \<and>
   (nullish (optprop params ''path'') \<longrightarrow>
      legacy_prefix params = ret '''' \<and> mcp_prefix (or_else params (JObj [])) = ret '''') \<and>
   (legacy_request (JStr ''list_r2_files'') params request \<and> R2 env = Some bucket \<and>
    optprop params ''path'' = JStr p \<longrightarrow>
      snd (fetch b request env) = [R2_list_call (normalize_prefix p)]) \<and>
   (legacy_request (JStr ''list_r2_files'') params request \<and> R2 env = Some bucket \<and>
    nullish (optprop params ''path'') \<longrightarrow>
      snd (fetch b request env) = [R2_list_call '''']) \<and>
   (jsonrpc_request rid (JStr ''tools/call'') call_params call_request \<and>
    optprop call_params ''name'' = JStr ''list_r2_files'' \<and>
    optprop call_params ''arguments'' = params \<and> R2 env = Some bucket \<and>
    optprop params ''path'' = JStr p \<longrightarrow>
      snd (fetch b call_request env) = [R2_list_call (normalize_prefix p)]) \<and>
   (jsonrpc_request rid (JStr ''tools/call'') call_params call_request \<and>
    optprop call_params ''name'' = JStr ''list_r2_files'' \<and>
    optprop call_params ''arguments'' = params \<and> R2 env = Some bucket \<and>
    nullish (optprop params ''path'') \<longrightarrow>
      snd (fetch b call_request env) = [R2_list_call ''''])"
proof (intro conjI impI)
  show "normalize_prefix '''' = ''''" "normalize_prefix ''/'' = ''''"
    "normalize_prefix ''logs'' = ''logs/''" "normalize_prefix ''logs/'' = ''logs/''"
    by (simp_all add: normalize_prefix_def endsWith_def)
  show "normalize_prefix (normalize_prefix p) = normalize_prefix p"
    by (rule normalize_prefix_idem)
next
  assume "optprop params ''path'' = JStr p"
  then show "legacy_prefix params = ret (normalize_prefix p)"
    and "mcp_prefix (or_else params (JObj [])) = ret (normalize_prefix p)"
    by (simp_all add: legacy_prefix_string mcp_prefix_string)
next
  assume "nullish (optprop params ''path'')"
  then show "legacy_prefix params = ret ''''"
    and "mcp_prefix (or_else params (JObj [])) = ret ''''"
    by (simp_all add: legacy_prefix_nullish mcp_prefix_nullish)
next
  assume a: "legacy_request (JStr ''list_r2_files'') params request \<and> R2 env = Some bucket \<and>
    optprop params ''path'' = JStr p"
  then have r: "legacy_request (JStr ''list_r2_files'') params request" by simp
  from a show "snd (fetch b request env) = [R2_list_call (normalize_prefix p)]"
    by (simp add: fetch_legacy_list [OF r] calls_legacy_list [OF legacy_prefix_string])
next
  assume a: "legacy_request (JStr ''list_r2_files'') params request \<and> R2 env = Some bucket \<and>
    nullish (optprop params ''path'')"
  then have r: "legacy_request (JStr ''list_r2_files'') params request" by simp
  from a show "snd (fetch b request env) = [R2_list_call '''']"
    by (simp add: fetch_legacy_list [OF r] calls_legacy_list [OF legacy_prefix_nullish])
next
  assume a: "jsonrpc_request rid (JStr ''tools/call'') call_params call_request \<and>
    optprop call_params ''name'' = JStr ''list_r2_files'' \<and>
    optprop call_params ''arguments'' = params \<and> R2 env = Some bucket \<and>
    optprop params ''path'' = JStr p"
  then have r: "jsonrpc_request rid (JStr ''tools/call'') call_params call_request"
    and n: "optprop call_params ''name'' = JStr ''list_r2_files''" by simp_all
  from a show "snd (fetch b call_request env) = [R2_list_call (normalize_prefix p)]"
    by (simp add: fetch_mcp_list [OF r n] calls_mcp_list [OF mcp_prefix_string])
next
  assume a: "jsonrpc_request rid (JStr ''tools/call'') call_params call_request \<and>
    optprop call_params ''name'' = JStr ''list_r2_files'' \<and>
    optprop call_params ''arguments'' = params \<and> R2 env = Some bucket \<and>
    nullish (optprop params ''path'')"
  then have r: "jsonrpc_request rid (JStr ''tools/call'') call_params call_request"
    and n: "optprop call_params ''name'' = JStr ''list_r2_files''" by simp_all
  from a show "snd (fetch b call_request env) = [R2_list_call '''']"
    by (simp add: fetch_mcp_list [OF r n] calls_mcp_list [OF mcp_prefix_nullish])
qed

theorem list_prefix_normalization_witness:
  "snd (fetch example_builtins (post (legacy_body (JStr ''list_r2_files'') (JObj [(''path'', JStr ''logs'')])))
     empty_bucket_env) = [R2_list_call ''logs/''] \<and>
   snd (fetch example_builtins
     (post (tools_call_body (JNum (Finite 1)) (JStr ''list_r2_files'') (JObj [(''path'', JStr ''logs'')])))
     empty_bucket_env) = [R2_list_call ''logs/''] \<and>
   snd (fetch example_builtins (post (legacy_body (JStr ''list_r2_files'') (JObj [])))
     empty_bucket_env) = [R2_list_call ''''] \<and>
   snd (fetch example_builtins
     (post (tools_call_body (JNum (Finite 1)) (JStr ''list_r2_files'') (JObj [(''path'', JStr ''/'')])))
     empty_bucket_env) = [R2_list_call '''']"
  using list_prefix_normalization [where p = "''logs''" and params = "JObj [(''path'', JStr ''logs'')]"
      and request = "post (legacy_body (JStr ''list_r2_files'') (JObj [(''path'', JStr ''logs'')]))"
      and env = empty_bucket_env and b = example_builtins and rid = "JNum (Finite 1)"
      and bucket = "\<lparr> r2_list = (\<lambda>prefix. Inr (JObj [(''objects'', JArr [])])), r2_get = (\<lambda>key. Inr None) \<rparr>"
      and call_params = "JObj [(''name'', JStr ''list_r2_files''), (''arguments'', JObj [(''path'', JStr ''logs'')])]"
      and call_request = "post (tools_call_body (JNum (Finite 1)) (JStr ''list_r2_files'') (JObj [(''path'', JStr ''logs'')]))"]
    list_prefix_normalization [where p = "''/''" and params = "JObj []"
      and request = "post (legacy_body (JStr ''list_r2_files'') (JObj []))"
      and env = empty_bucket_env and b = example_builtins
      and bucket = "\<lparr> r2_list = (\<lambda>prefix. Inr (JObj [(''objects'', JArr [])])), r2_get = (\<lambda>key. Inr None) \<rparr>"]
    list_prefix_normalization [where p = "''/''" and params = "JObj [(''path'', JStr ''/'')]"
      and env = empty_bucket_env and b = example_builtins and rid = "JNum (Finite 1)"
      and bucket = "\<lparr> r2_list = (\<lambda>prefix. Inr (JObj [(''objects'', JArr [])])), r2_get = (\<lambda>key. Inr None) \<rparr>"
      and call_params = "JObj [(''name'', JStr ''list_r2_files''), (''arguments'', JObj [(''path'', JStr ''/'')])]"
      and call_request = "post (tools_call_body (JNum (Finite 1)) (JStr ''list_r2_files'') (JObj [(''path'', JStr ''/'')]))"]
  by (simp add: own_def empty_bucket_env_def)

subsection \<open>The search adapter\<close>

text \<open>
  Claim C5. With both bindings configured, an embedding that is an array and an index that
  answers with an object, \<open>searchVectors\<close> returns the list of match records of the
  matches: it reads the list from \<open>matches\<close>, or from \<open>results\<close> when \<open>matches\<close> is
  absent, and returns the empty list (no error) when both are absent. A match record has
  \<open>id\<close> and \<open>score\<close> passed through, \<open>source\<close> and \<open>text\<close> from the nested metadata,
  and the metadata itself (the last conjunct shows it on a match with all fields). The
  bindings are called once each: the embedding provider with the query, the index with the
  embedding and \<open>topK\<close>.
\<close>

theorem searchVectors_normalizes_matches:
  assumes "VECTOR_INDEX env = Some index_query" and "AI env = Some ai_run"
    and "ai_run ''@cf/qwen/qwen3-embedding-0.6b'' (JObj [(''text'', JArr [query])]) = Inr response"
    and "optindex0 (optprop response ''data'') = JArr embedding"
    and "index_query (JArr embedding) (JObj [(''topK'', topK)]) = Inr (JObj result)"
    and "list_all (\<lambda>m. \<not> nullish m) ms"
  shows "(own result ''matches'' = JArr ms \<longrightarrow>
            searchVectors env query topK =
              (Inr (JArr (map match_record ms)),
               [AI_run_call ''@cf/qwen/qwen3-embedding-0.6b'' (JObj [(''text'', JArr [query])]),
                VECTOR_INDEX_query_call (JArr embedding) (JObj [(''topK'', topK)])])) \<and>
         (\<not> truthy (own result ''matches'') \<and> own result ''results'' = JArr ms \<longrightarrow>
            searchVectors env query topK =
              (Inr (JArr (map match_record ms)),
               [AI_run_call ''@cf/qwen/qwen3-embedding-0.6b'' (JObj [(''text'', JArr [query])]),
                VECTOR_INDEX_query_call (JArr embedding) (JObj [(''topK'', topK)])])) \<and>
         (\<not> truthy (own result ''matches'') \<and> \<not> truthy (own result ''results'') \<longrightarrow>
            searchVectors env query topK =
              (Inr (JArr []),
               [AI_run_call ''@cf/qwen/qwen3-embedding-0.6b'' (JObj [(''text'', JArr [query])]),
                VECTOR_INDEX_query_call (JArr embedding) (JObj [(''topK'', topK)])])) \<and>
         match_record (JObj [(''id'', i), (''score'', s), (''metadata'', JObj [(''source'', src), (''text'', txt)])]) =
           JObj [(''id'', i), (''score'', s), (''source'', src), (''text'', txt),
                 (''metadata'', JObj [(''source'', src), (''text'', txt)])]"
proof (intro conjI impI)
  assume "own result ''matches'' = JArr ms"
  with assms show "searchVectors env query topK =
              (Inr (JArr (map match_record ms)),
               [AI_run_call ''@cf/qwen/qwen3-embedding-0.6b'' (JObj [(''text'', JArr [query])]),
                VECTOR_INDEX_query_call (JArr embedding) (JObj [(''topK'', topK)])])"
    by (simp add: searchVectors_def seq_called_Inr array_map_match_record)
next
  assume "\<not> truthy (own result ''matches'') \<and> own result ''results'' = JArr ms"
  with assms show "searchVectors env query topK =
              (Inr (JArr (map match_record ms)),
               [AI_run_call ''@cf/qwen/qwen3-embedding-0.6b'' (JObj [(''text'', JArr [query])]),
                VECTOR_INDEX_query_call (JArr embedding) (JObj [(''topK'', topK)])])"
    by (simp add: searchVectors_def seq_called_Inr array_map_match_record or_else_truthy)
next
  assume "\<not> truthy (own result ''matches'') \<and> \<not> truthy (own result ''results'')"
  with assms(1-5) array_map_match_record [of "[]"]
  show "searchVectors env query topK =
              (Inr (JArr []),
               [AI_run_call ''@cf/qwen/qwen3-embedding-0.6b'' (JObj [(''text'', JArr [query])]),
                VECTOR_INDEX_query_call (JArr embedding) (JObj [(''topK'', topK)])])"
    by (simp add: searchVectors_def seq_called_Inr or_else_falsy)
next
  show "match_record (JObj [(''id'', i), (''score'', s), (''metadata'', JObj [(''source'', src), (''text'', txt)])]) =
           JObj [(''id'', i), (''score'', s), (''source'', src), (''text'', txt),
                 (''metadata'', JObj [(''source'', src), (''text'', txt)])]"
    by (simp add: match_record_def own_def or_else_def)
qed

theorem searchVectors_normalizes_matches_witness:
  "fst (searchVectors example_search_env (JStr ''question'') (JNum (Finite 5))) =
     Inr (JArr [JObj [(''id'', JStr ''a''), (''score'', JNum (Finite (9 / 10))),
                      (''source'', JStr ''s''), (''text'', JStr ''t''),
                      (''metadata'', JObj [(''source'', JStr ''s''), (''text'', JStr ''t'')])]])"
  using searchVectors_normalizes_matches [where env = example_search_env and query = "JStr ''question''"
      and topK = "JNum (Finite 5)"
      and index_query = "\<lambda>embedding options.
         Inr (JObj [(''matches'', JArr [
           JObj [(''id'', JStr ''a''), (''score'', JNum (Finite (9 / 10))),
                 (''metadata'', JObj [(''source'', JStr ''s''), (''text'', JStr ''t'')])]])])"
      and ai_run = "\<lambda>model input.
         Inr (JObj [(''data'', JArr [JArr [JNum (Finite (1 / 10)), JNum (Finite (2 / 10))]])])"
      and response = "JObj [(''data'', JArr [JArr [JNum (Finite (1 / 10)), JNum (Finite (2 / 10))]])]"
      and embedding = "[JNum (Finite (1 / 10)), JNum (Finite (2 / 10))]"
      and result = "[(''matches'', JArr [
           JObj [(''id'', JStr ''a''), (''score'', JNum (Finite (9 / 10))),
                 (''metadata'', JObj [(''source'', JStr ''s''), (''text'', JStr ''t'')])]])]"
      and ms = "[JObj [(''id'', JStr ''a''), (''score'', JNum (Finite (9 / 10))),
                 (''metadata'', JObj [(''source'', JStr ''s''), (''text'', JStr ''t'')])]]"]
  by (simp add: example_search_env_def own_def match_record_def or_else_def)

subsection \<open>read_r2_file\<close>

text \<open>
  Claim C6. A \<open>read_r2_file\<close> call with a string \<open>path\<close>, on either path of the
  dispatcher, with the storage configured. When the worker asks the storage for that key
  and the storage answers with no object, the response is a success envelope (the legacy
  content, or the JSON-RPC result with the id of the request) whose text is
  \<open>Error: File "<path>" not found\<close>. When the storage answers with an object, the text is
  the content of the object as its \<open>text()\<close> gives it, unchanged. In both cases the
  storage is asked once, for exactly that key, and the text is the one a client reads in
  the body. The storage is asked whenever the path is not the empty string. The last
  three conjuncts spell out the two bodies and their status.
\<close>

theorem read_r2_file_answers:
  assumes "R2 env = Some bucket"
    and "legacy_request (JStr ''read_r2_file'') params request"
    and "jsonrpc_request rid (JStr ''tools/call'') call_params call_request"
    and "optprop call_params ''name'' = JStr ''read_r2_file''"
    and "optprop call_params ''arguments'' = params"
    and "optprop params ''path'' = JStr p"
  shows \<open>(R2_get_call (JStr p) \<in> set (snd (fetch b request env)) \<and> r2_get bucket (JStr p) = Inr None \<longrightarrow>
            fetch b request env =
              (Inr (legacyJson (text_content (''Error: File "'' @ p @ ''" not found'')) 200),
               [R2_get_call (JStr p)]) \<and>
            outcome_text (fst (fetch b request env)) = JStr (''Error: File "'' @ p @ ''" not found'')) \<and>
         (R2_get_call (JStr p) \<in> set (snd (fetch b call_request env)) \<and> r2_get bucket (JStr p) = Inr None \<longrightarrow>
            fetch b call_request env =
              (Inr (jsonRpcResult rid (text_content (''Error: File "'' @ p @ ''" not found'')) 200),
               [R2_get_call (JStr p)]) \<and>
            outcome_text (fst (fetch b call_request env)) =
              JStr (''Error: File "'' @ p @ ''" not found'')) \<and>
         (R2_get_call (JStr p) \<in> set (snd (fetch b request env)) \<and>
          r2_get bucket (JStr p) = Inr (Some (Inr content)) \<longrightarrow>
            fetch b request env =
              (Inr (legacyJson (text_content content) 200), [R2_get_call (JStr p), R2_text_call]) \<and>
            outcome_text (fst (fetch b request env)) = JStr content) \<and>
         (R2_get_call (JStr p) \<in> set (snd (fetch b call_request env)) \<and>
          r2_get bucket (JStr p) = Inr (Some (Inr content)) \<longrightarrow>
            fetch b call_request env =
              (Inr (jsonRpcResult rid (text_content content) 200),
               [R2_get_call (JStr p), R2_text_call]) \<and>
            outcome_text (fst (fetch b call_request env)) = JStr content) \<and>
         (p \<noteq> [] \<longrightarrow>
            R2_get_call (JStr p) \<in> set (snd (fetch b request env)) \<and>
            R2_get_call (JStr p) \<in> set (snd (fetch b call_request env))) \<and>
         payload (legacyJson (text_content t) 200) =
           Json (JObj [(''content'', JArr [JObj [(''type'', JStr ''text''), (''text'', JStr t)]])]) \<and>
         payload (jsonRpcResult rid (text_content t) 200) =
           Json (JObj ((''jsonrpc'', JStr ''2.0'') #
                       (if rid = JUndefined then [] else [(''id'', wire rid)]) @
                       [(''result'',
                         JObj [(''content'', JArr [JObj [(''type'', JStr ''text''), (''text'', JStr t)]])])])) \<and>
         status (legacyJson (text_content t) 200) = 200 \<and>
         status (jsonRpcResult rid (text_content t) 200) = 200\<close>
proof -
  have legacy: "fetch b request env = catch_all b (legacy_read_r2_file b env params)"
    by (rule fetch_legacy_read [OF assms(2)])
  have mcp: "fetch b call_request env =
      catch_all b (mcp_read_r2_file b env rid (or_else params (JObj [])))"
    using fetch_mcp_read [OF assms(3) assms(4)] assms(5) by simp
  note l = legacy_read_string [OF assms(1) assms(6), of b]
  note m = mcp_read_string [OF assms(1) assms(6), of b rid]
  have bodies: "payload (legacyJson (text_content t) 200) =
           Json (JObj [(''content'', JArr [JObj [(''type'', JStr ''text''), (''text'', JStr t)]])]) \<and>
         payload (jsonRpcResult rid (text_content t) 200) =
           Json (JObj ((''jsonrpc'', JStr ''2.0'') #
                       (if rid = JUndefined then [] else [(''id'', wire rid)]) @
                       [(''result'',
                         JObj [(''content'', JArr [JObj [(''type'', JStr ''text''), (''text'', JStr t)]])])])) \<and>
         status (legacyJson (text_content t) 200) = 200 \<and>
         status (jsonRpcResult rid (text_content t) 200) = 200"
    by (simp add: payload_legacyJson_text payload_jsonRpcResult_text)
  show ?thesis
  proof (cases "p = []")
    case True
    with bodies show ?thesis by (simp add: legacy mcp l m)
  next
    case False
    with bodies show ?thesis
      by (simp add: legacy mcp l m outcome_text_def split: sum.splits option.splits)
  qed
qed

theorem read_r2_file_answers_witness:
  \<open>fetch example_builtins (post (legacy_body (JStr ''read_r2_file'') (JObj [(''path'', JStr ''notes.txt'')])))
     empty_bucket_env =
     (Inr (legacyJson (text_content ''Error: File "notes.txt" not found'') 200),
      [R2_get_call (JStr ''notes.txt'')]) \<and>
   fetch example_builtins
     (post (tools_call_body (JNum (Finite 7)) (JStr ''read_r2_file'') (JObj [(''path'', JStr ''notes.txt'')])))
     empty_bucket_env =
     (Inr (jsonRpcResult (JNum (Finite 7)) (text_content ''Error: File "notes.txt" not found'') 200),
      [R2_get_call (JStr ''notes.txt'')]) \<and>
   fetch example_builtins
     (post (tools_call_body (JNum (Finite 7)) (JStr ''read_r2_file'') (JObj [(''path'', JStr ''notes.txt'')])))
     one_file_env =
     (Inr (jsonRpcResult (JNum (Finite 7)) (text_content ''line one'') 200),
      [R2_get_call (JStr ''notes.txt''), R2_text_call]) \<and>
   outcome_text (fst (fetch example_builtins
     (post (tools_call_body (JNum (Finite 7)) (JStr ''read_r2_file'') (JObj [(''path'', JStr ''notes.txt'')])))
     one_file_env)) = JStr ''line one'' \<and>
   payload (jsonRpcResult (JNum (Finite 7)) (text_content ''line one'') 200) =
     Json (JObj [(''jsonrpc'', JStr ''2.0''), (''id'', JNum (Finite 7)),
                 (''result'', JObj [(''content'',
                    JArr [JObj [(''type'', JStr ''text''), (''text'', JStr ''line one'')]])])])\<close>
  using read_r2_file_answers [where env = empty_bucket_env and b = example_builtins
      and bucket = "\<lparr> r2_list = (\<lambda>prefix. Inr (JObj [(''objects'', JArr [])])), r2_get = (\<lambda>key. Inr None) \<rparr>"
      and params = "JObj [(''path'', JStr ''notes.txt'')]" and p = "''notes.txt''"
      and request = "post (legacy_body (JStr ''read_r2_file'') (JObj [(''path'', JStr ''notes.txt'')]))"
      and rid = "JNum (Finite 7)"
      and call_params = "JObj [(''name'', JStr ''read_r2_file''), (''arguments'', JObj [(''path'', JStr ''notes.txt'')])]"
      and call_request = "post (tools_call_body (JNum (Finite 7)) (JStr ''read_r2_file'') (JObj [(''path'', JStr ''notes.txt'')]))"]
    read_r2_file_answers [where env = one_file_env and b = example_builtins
      and bucket = "\<lparr> r2_list = (\<lambda>prefix. Inr (JObj [(''objects'', JArr [])])),
                      r2_get = (\<lambda>key. if key = JStr ''notes.txt'' then Inr (Some (Inr ''line one''))
                                      else Inr None) \<rparr>"
      and params = "JObj [(''path'', JStr ''notes.txt'')]" and p = "''notes.txt''"
      and content = "''line one''" and t = "''line one''"
      and request = "post (legacy_body (JStr ''read_r2_file'') (JObj [(''path'', JStr ''notes.txt'')]))"
      and rid = "JNum (Finite 7)"
      and call_params = "JObj [(''name'', JStr ''read_r2_file''), (''arguments'', JObj [(''path'', JStr ''notes.txt'')])]"
      and call_request = "post (tools_call_body (JNum (Finite 7)) (JStr ''read_r2_file'') (JObj [(''path'', JStr ''notes.txt'')]))"]
  by (simp add: own_def empty_bucket_env_def one_file_env_def)

subsection \<open>Unknown tools and methods\<close>




subsection \<open>Failures of the tools\<close>




subsection \<open>Which failures a tool branch catches\<close>

text \<open>
  Claim C2, amended. Under \<open>tools/call\<close>, only \<open>search_vectors\<close> catches the failures of
  its execution. With a query present, an \<open>Error\<close> object that \<open>searchVectors\<close> throws (and
  any thrown value whose \<open>message\<close> can be read and converted to a string) is returned as
  a JSON-RPC result with the id of the request whose text, as a client reads it, is
  \<open>Error running search_vectors: <message>\<close>; a thrown \<open>null\<close> or \<open>undefined\<close> makes
  the handler itself throw, and the answer is the JSON-RPC error of code -32603. The
  branches of \<open>list_r2_files\<close> and \<open>read_r2_file\<close> catch nothing: an \<open>Error\<close> object
  thrown by the list, the get or the \<open>text()\<close> of the storage reaches the catch of
  \<open>fetch\<close> and is returned as the JSON-RPC error of code -32603 with id \<open>null\<close>, for
  every path argument (the prefix is empty for an omitted path). The last two conjuncts
  spell out the two bodies.
\<close>

theorem tool_failures_under_tools_call:
  assumes "jsonrpc_request rid (JStr ''tools/call'') call_params request"
    and "optprop call_params ''arguments'' = args"
  shows "(optprop call_params ''name'' = JStr ''search_vectors'' \<and> truthy (optprop args ''query'') \<and>
          fst (searchVectors env (optprop args ''query'')
                 (coalesce (optprop args ''topK'') (JNum (Finite 5)))) = Inl (Error msg) \<longrightarrow>
            fetch b request env =
              (Inr (jsonRpcResult rid (text_content (''Error running search_vectors: '' @ msg)) 200),
               snd (searchVectors env (optprop args ''query'')
                      (coalesce (optprop args ''topK'') (JNum (Finite 5))))) \<and>
            outcome_text (fst (fetch b request env)) =
              JStr (''Error running search_vectors: '' @ msg)) \<and>
         (optprop call_params ''name'' = JStr ''search_vectors'' \<and> truthy (optprop args ''query'') \<and>
          fst (searchVectors env (optprop args ''query'')
                 (coalesce (optprop args ''topK'') (JNum (Finite 5)))) = Inl e \<and>
          thrown_message e = Inr m \<and> to_string b m = Inr msg \<longrightarrow>
            fst (fetch b request env) =
              Inr (jsonRpcResult rid (text_content (''Error running search_vectors: '' @ msg)) 200) \<and>
            outcome_text (fst (fetch b request env)) =
              JStr (''Error running search_vectors: '' @ msg)) \<and>
         (optprop call_params ''name'' = JStr ''search_vectors'' \<and> truthy (optprop args ''query'') \<and>
          fst (searchVectors env (optprop args ''query'')
                 (coalesce (optprop args ''topK'') (JNum (Finite 5)))) = Inl e \<and>
          thrown_message e = Inl (Error msg) \<longrightarrow>
            fst (fetch b request env) =
              Inr (jsonRpcError JNull (- 32603) (''Internal error: '' @ msg) 200)) \<and>
         (optprop call_params ''name'' = JStr ''list_r2_files'' \<and> R2 env = Some bucket \<and>
          mcp_prefix (or_else args (JObj [])) = ret prefix \<and>
          r2_list bucket prefix = Inl (Error msg) \<longrightarrow>
            fetch b request env =
              (Inr (jsonRpcError JNull (- 32603) (''Internal error: '' @ msg) 200),
               [R2_list_call prefix])) \<and>
         (nullish (optprop args ''path'') \<longrightarrow> mcp_prefix (or_else args (JObj [])) = ret '''') \<and>
         (optprop args ''path'' = JStr p \<longrightarrow>
            mcp_prefix (or_else args (JObj [])) = ret (normalize_prefix p)) \<and>
         (optprop call_params ''name'' = JStr ''read_r2_file'' \<and> R2 env = Some bucket \<and>
          optprop args ''path'' = JStr p \<and> p \<noteq> [] \<and> r2_get bucket (JStr p) = Inl (Error msg) \<longrightarrow>
            fetch b request env =
              (Inr (jsonRpcError JNull (- 32603) (''Internal error: '' @ msg) 200),
               [R2_get_call (JStr p)])) \<and>
         (optprop call_params ''name'' = JStr ''read_r2_file'' \<and> R2 env = Some bucket \<and>
          optprop args ''path'' = JStr p \<and> p \<noteq> [] \<and>
          r2_get bucket (JStr p) = Inr (Some (Inl (Error msg))) \<longrightarrow>
            fetch b request env =
              (Inr (jsonRpcError JNull (- 32603) (''Internal error: '' @ msg) 200),
               [R2_get_call (JStr p), R2_text_call])) \<and>
         payload (jsonRpcResult rid (text_content t) 200) =
           Json (JObj ((''jsonrpc'', JStr ''2.0'') #
                       (if rid = JUndefined then [] else [(''id'', wire rid)]) @
                       [(''result'',
                         JObj [(''content'', JArr [JObj [(''type'', JStr ''text''), (''text'', JStr t)]])])])) \<and>
         payload (jsonRpcError JNull (- 32603) t 200) =
           Json (JObj [(''jsonrpc'', JStr ''2.0''), (''id'', JNull),
                       (''error'', JObj [(''code'', JNum (Finite (- 32603))), (''message'', JStr t)])])"
proof (intro conjI impI)
  assume a: "optprop call_params ''name'' = JStr ''search_vectors'' \<and> truthy (optprop args ''query'') \<and>
          fst (searchVectors env (optprop args ''query'')
                 (coalesce (optprop args ''topK'') (JNum (Finite 5)))) = Inl (Error msg)"
  then have n: "optprop call_params ''name'' = JStr ''search_vectors''" by simp
  from a show "fetch b request env =
      (Inr (jsonRpcResult rid (text_content (''Error running search_vectors: '' @ msg)) 200),
       snd (searchVectors env (optprop args ''query'')
              (coalesce (optprop args ''topK'') (JNum (Finite 5)))))"
    by (simp add: fetch_mcp_search [OF assms(1) n] assms(2) mcp_search_present)
  from a show "outcome_text (fst (fetch b request env)) =
      JStr (''Error running search_vectors: '' @ msg)"
    by (simp add: fetch_mcp_search [OF assms(1) n] assms(2) mcp_search_present outcome_text_def)
next
  assume a: "optprop call_params ''name'' = JStr ''search_vectors'' \<and> truthy (optprop args ''query'') \<and>
          fst (searchVectors env (optprop args ''query'')
                 (coalesce (optprop args ''topK'') (JNum (Finite 5)))) = Inl e \<and>
          thrown_message e = Inr m \<and> to_string b m = Inr msg"
  then have n: "optprop call_params ''name'' = JStr ''search_vectors''" by simp
  from a show "fst (fetch b request env) =
      Inr (jsonRpcResult rid (text_content (''Error running search_vectors: '' @ msg)) 200)"
    by (simp add: fetch_mcp_search [OF assms(1) n] assms(2) mcp_search_present)
  from a show "outcome_text (fst (fetch b request env)) =
      JStr (''Error running search_vectors: '' @ msg)"
    by (simp add: fetch_mcp_search [OF assms(1) n] assms(2) mcp_search_present outcome_text_def)
next
  assume a: "optprop call_params ''name'' = JStr ''search_vectors'' \<and> truthy (optprop args ''query'') \<and>
          fst (searchVectors env (optprop args ''query'')
                 (coalesce (optprop args ''topK'') (JNum (Finite 5)))) = Inl e \<and>
          thrown_message e = Inl (Error msg)"
  then have n: "optprop call_params ''name'' = JStr ''search_vectors''" by simp
  from a show "fst (fetch b request env) =
      Inr (jsonRpcError JNull (- 32603) (''Internal error: '' @ msg) 200)"
    by (simp add: fetch_mcp_search [OF assms(1) n] assms(2) mcp_search_present)
next
  assume a: "optprop call_params ''name'' = JStr ''list_r2_files'' \<and> R2 env = Some bucket \<and>
          mcp_prefix (or_else args (JObj [])) = ret prefix \<and>
          r2_list bucket prefix = Inl (Error msg)"
  then have n: "optprop call_params ''name'' = JStr ''list_r2_files''" by simp
  from a have "catch_all b (mcp_list_r2_files b env rid (or_else args (JObj []))) =
      (fst (catch_block b (Error msg)), [R2_list_call prefix])"
    by (intro mcp_list_fails [where bucket = bucket]) simp_all
  then show "fetch b request env =
      (Inr (jsonRpcError JNull (- 32603) (''Internal error: '' @ msg) 200), [R2_list_call prefix])"
    by (simp add: fetch_mcp_list [OF assms(1) n] assms(2))
next
  assume "nullish (optprop args ''path'')"
  then show "mcp_prefix (or_else args (JObj [])) = ret ''''"
    by (rule mcp_prefix_nullish)
next
  assume "optprop args ''path'' = JStr p"
  then show "mcp_prefix (or_else args (JObj [])) = ret (normalize_prefix p)"
    by (rule mcp_prefix_string)
next
  assume a: "optprop call_params ''name'' = JStr ''read_r2_file'' \<and> R2 env = Some bucket \<and>
          optprop args ''path'' = JStr p \<and> p \<noteq> [] \<and> r2_get bucket (JStr p) = Inl (Error msg)"
  then have n: "optprop call_params ''name'' = JStr ''read_r2_file''" by simp
  from a show "fetch b request env =
      (Inr (jsonRpcError JNull (- 32603) (''Internal error: '' @ msg) 200), [R2_get_call (JStr p)])"
    by (simp add: fetch_mcp_read [OF assms(1) n] assms(2)
        mcp_read_string [where bucket = bucket and p = p])
next
  assume a: "optprop call_params ''name'' = JStr ''read_r2_file'' \<and> R2 env = Some bucket \<and>
          optprop args ''path'' = JStr p \<and> p \<noteq> [] \<and>
          r2_get bucket (JStr p) = Inr (Some (Inl (Error msg)))"
  then have n: "optprop call_params ''name'' = JStr ''read_r2_file''" by simp
  from a show "fetch b request env =
      (Inr (jsonRpcError JNull (- 32603) (''Internal error: '' @ msg) 200),
       [R2_get_call (JStr p), R2_text_call])"
    by (simp add: fetch_mcp_read [OF assms(1) n] assms(2)
        mcp_read_string [where bucket = bucket and p = p])
next
  show "payload (jsonRpcResult rid (text_content t) 200) =
           Json (JObj ((''jsonrpc'', JStr ''2.0'') #
                       (if rid = JUndefined then [] else [(''id'', wire rid)]) @
                       [(''result'',
                         JObj [(''content'', JArr [JObj [(''type'', JStr ''text''), (''text'', JStr t)]])])]))"
    by (rule payload_jsonRpcResult_text)
next
  show "payload (jsonRpcError JNull (- 32603) t 200) =
           Json (JObj [(''jsonrpc'', JStr ''2.0''), (''id'', JNull),
                       (''error'', JObj [(''code'', JNum (Finite (- 32603))), (''message'', JStr t)])])"
    by (simp add: payload_jsonRpcError)
qed

theorem tool_failures_under_tools_call_witness:
  "fst (fetch example_builtins
     (post (tools_call_body (JNum (Finite 2)) (JStr ''search_vectors'') (JObj [(''query'', JStr ''q'')])))
     failing_bucket_env) =
     Inr (jsonRpcResult (JNum (Finite 2))
       (text_content (''Error running search_vectors: VECTOR_INDEX binding is missing. Add a ['' @
          ''[vectorize]'' @ ''] binding in wrangler.toml.'')) 200) \<and>
   fst (fetch example_builtins
     (post (tools_call_body (JNum (Finite 2)) (JStr ''search_vectors'') (JObj [(''query'', JStr ''q'')])))
     null_rejecting_env) =
     Inr (jsonRpcError JNull (- 32603)
       (''Internal error: Cannot read properties of null (reading 'message'' @ [CHR 0x27] @ '')'') 200) \<and>
   fetch example_builtins
     (post (tools_call_body (JNum (Finite 2)) (JStr ''list_r2_files'') (JObj [])))
     failing_bucket_env =
     (Inr (jsonRpcError JNull (- 32603) ''Internal error: bucket unavailable'' 200),
      [R2_list_call '''']) \<and>
   fetch example_builtins
     (post (tools_call_body (JNum (Finite 2)) (JStr ''read_r2_file'') (JObj [(''path'', JStr ''a.txt'')])))
     failing_bucket_env =
     (Inr (jsonRpcError JNull (- 32603) ''Internal error: bucket unavailable'' 200),
      [R2_get_call (JStr ''a.txt'')])"
proof -
  have s: "searchVectors null_rejecting_env (JStr ''q'') (JNum (Finite 5)) =
      (Inl (Thrown JNull),
       [AI_run_call ''@cf/qwen/qwen3-embedding-0.6b'' (JObj [(''text'', JArr [JStr ''q''])])])"
    by (simp add: searchVectors_def null_rejecting_env_def seq_called_Inl)
  have f: "searchVectors failing_bucket_env (JStr ''q'') (JNum (Finite 5)) =
      (Inl (Error (''VECTOR_INDEX binding is missing. Add a ['' @ ''[vectorize]'' @
         ''] binding in wrangler.toml.'')), [])"
    by (simp add: searchVectors_def failing_bucket_env_def throw_def)
  note tool_failures_under_tools_call [OF post_jsonrpc [of "JNum (Finite 2)" "JStr ''search_vectors''" "JObj [(''query'', JStr ''q'')]"],
      where b = example_builtins and env = failing_bucket_env and args = "JObj [(''query'', JStr ''q'')]"
      and msg = "''VECTOR_INDEX binding is missing. Add a ['' @ ''[vectorize]'' @ ''] binding in wrangler.toml.''"]
    tool_failures_under_tools_call [OF post_jsonrpc [of "JNum (Finite 2)" "JStr ''search_vectors''" "JObj [(''query'', JStr ''q'')]"],
      where b = example_builtins and env = null_rejecting_env and args = "JObj [(''query'', JStr ''q'')]"
      and e = "Thrown JNull"
      and msg = "''Cannot read properties of null (reading 'message'' @ [CHR 0x27] @ '')''"]
    tool_failures_under_tools_call [OF post_jsonrpc [of "JNum (Finite 2)" "JStr ''list_r2_files''" "JObj []"],
      where b = example_builtins and env = failing_bucket_env and args = "JObj []"
      and bucket = "\<lparr> r2_list = (\<lambda>prefix. Inl (Error ''bucket unavailable'')),
                      r2_get = (\<lambda>key. Inl (Error ''bucket unavailable'')) \<rparr>"
      and msg = "''bucket unavailable''" and prefix = "''''"]
    tool_failures_under_tools_call [OF post_jsonrpc [of "JNum (Finite 2)" "JStr ''read_r2_file''" "JObj [(''path'', JStr ''a.txt'')]"],
      where b = example_builtins and env = failing_bucket_env and args = "JObj [(''path'', JStr ''a.txt'')]"
      and bucket = "\<lparr> r2_list = (\<lambda>prefix. Inl (Error ''bucket unavailable'')),
                      r2_get = (\<lambda>key. Inl (Error ''bucket unavailable'')) \<rparr>"
      and msg = "''bucket unavailable''" and p = "''a.txt''"]
  moreover have "R2 failing_bucket_env =
      Some \<lparr> r2_list = (\<lambda>prefix. Inl (Error ''bucket unavailable'')),
             r2_get = (\<lambda>key. Inl (Error ''bucket unavailable'')) \<rparr>"
    by (simp add: failing_bucket_env_def)
  ultimately show ?thesis
    by (simp add: own_def s f coalesce_def)
qed

theorem storage_failure_counterexample:
  "fetch example_builtins
     (post (tools_call_body (JNum (Finite 1)) (JStr ''list_r2_files'') (JObj [])))
     failing_bucket_env =
     (Inr (jsonRpcError JNull (- 32603) ''Internal error: bucket unavailable'' 200),
      [R2_list_call '''']) \<and>
   (case payload (jsonRpcError JNull (- 32603) ''Internal error: bucket unavailable'' 200) of
      Plain s \<Rightarrow> False
    | Json v \<Rightarrow> is_jsonrpc_error v \<and> \<not> is_jsonrpc_result v) \<and>
   inner_text (jsonRpcError JNull (- 32603) ''Internal error: bucket unavailable'' 200) = JUndefined"
proof -
  have "fetch example_builtins
     (post (tools_call_body (JNum (Finite 1)) (JStr ''list_r2_files'') (JObj [])))
     failing_bucket_env =
     (Inr (jsonRpcError JNull (- 32603) ''Internal error: bucket unavailable'' 200),
      [R2_list_call ''''])"
    by (simp add: fetch_mcp_list [OF post_jsonrpc] own_def or_else_def
        mcp_list_fails [where bucket = "\<lparr> r2_list = (\<lambda>prefix. Inl (Error ''bucket unavailable'')),
                      r2_get = (\<lambda>key. Inl (Error ''bucket unavailable'')) \<rparr>"
          and prefix = "''''" and e = "Error ''bucket unavailable''"]
        failing_bucket_env_def mcp_prefix_def coalesce_def)
  then show ?thesis
    by (simp add: payload_jsonRpcError is_jsonrpc_error_def is_jsonrpc_result_def
        is_code_and_message_def own_def)
qed

subsection \<open>The shape of every response\<close>



subsection \<open>The legacy path and the tools/call path\<close>

text \<open>
  Claim C1, amended. A legacy request and a \<open>tools/call\<close> request for the same tool with
  the same arguments. For \<open>list_r2_files\<close> always, for \<open>read_r2_file\<close> when the path is
  present (truthy) and for \<open>search_vectors\<close> when the query is present, the two paths make
  the same calls and have the same outcome: they answer with the same text, the legacy
  path in a legacy content and the other in the JSON-RPC result with the id of the
  request, or both answer with the same internal error, or both reject with the same
  value. When the path or the query is missing the texts differ: the \<open>tools/call\<close> path
  answers \<open>Error: missing 'path' argument\<close> and \<open>Error: missing 'query' argument\<close>, the
  legacy path \<open>Error: missing 'path'\<close> and \<open>Error: missing 'query'\<close>.
\<close>

theorem legacy_and_tools_call_agree:
  assumes "legacy_request (JStr tool) params request"
    and "jsonrpc_request rid (JStr ''tools/call'') call_params call_request"
    and "optprop call_params ''name'' = JStr tool"
    and "optprop call_params ''arguments'' = params"
  shows "(tool = ''list_r2_files'' \<or>
          tool = ''read_r2_file'' \<and> truthy (optprop params ''path'') \<or>
          tool = ''search_vectors'' \<and> truthy (optprop params ''query'') \<longrightarrow>
            same_outcome rid (fst (fetch b request env)) (fst (fetch b call_request env)) \<and>
            outcome_text (fst (fetch b request env)) = outcome_text (fst (fetch b call_request env)) \<and>
            snd (fetch b request env) = snd (fetch b call_request env)) \<and>
         (tool = ''read_r2_file'' \<and> \<not> truthy (optprop params ''path'') \<longrightarrow>
            fetch b request env =
              (Inr (legacyJson (text_content (''Error: missing 'path'' @ [CHR 0x27])) 200), []) \<and>
            fetch b call_request env =
              (Inr (jsonRpcResult rid (text_content ''Error: missing 'path' argument'') 200), [])) \<and>
         (tool = ''search_vectors'' \<and> \<not> truthy (optprop params ''query'') \<longrightarrow>
            fetch b request env =
              (Inr (legacyJson (text_content (''Error: missing 'query'' @ [CHR 0x27])) 200), []) \<and>
            fetch b call_request env =
              (Inr (jsonRpcResult rid (text_content ''Error: missing 'query' argument'') 200), []))"
proof -
  have same: "same_outcome rid (fst (catch_all b m1)) (fst (catch_all b m2)) \<and>
      outcome_text (fst (catch_all b m1)) = outcome_text (fst (catch_all b m2)) \<and>
      snd (catch_all b m1) = snd (catch_all b m2)"
    if "agree (same_content rid) m1 m2" for m1 m2
    using same_content_catch_all [OF that, of b]
      same_outcome_text [of rid "fst (catch_all b m1)" "fst (catch_all b m2)"] by simp
  have list: ?thesis if t: "tool = ''list_r2_files''"
  proof -
    have "fetch b request env = catch_all b (legacy_list_r2_files b env params)"
      using assms(1) t by (simp add: fetch_legacy_list)
    moreover have "fetch b call_request env =
        catch_all b (mcp_list_r2_files b env rid (or_else params (JObj [])))"
      using fetch_mcp_list [OF assms(2)] assms(3) assms(4) t by simp
    ultimately show ?thesis
      using same [OF agree_list] t by simp
  qed
  have read: ?thesis if t: "tool = ''read_r2_file''"
  proof -
    have l: "fetch b request env = catch_all b (legacy_read_r2_file b env params)"
      using assms(1) t by (simp add: fetch_legacy_read)
    have m: "fetch b call_request env =
        catch_all b (mcp_read_r2_file b env rid (or_else params (JObj [])))"
      using fetch_mcp_read [OF assms(2)] assms(3) assms(4) t by simp
    show ?thesis
    proof (cases "truthy (optprop params ''path'')")
      case True
      with same [OF agree_read [OF True]] l m t show ?thesis by simp
    next
      case False
      with l m t show ?thesis by (simp add: legacy_read_missing mcp_read_missing ret_def)
    qed
  qed
  have search: ?thesis if t: "tool = ''search_vectors''"
  proof -
    have l: "fetch b request env = catch_all b (legacy_search_vectors b env params)"
      using assms(1) t by (simp add: fetch_legacy_search)
    have m: "fetch b call_request env =
        catch_all b (mcp_search_vectors b env rid (or_else params (JObj [])))"
      using fetch_mcp_search [OF assms(2)] assms(3) assms(4) t by simp
    show ?thesis
    proof (cases "truthy (optprop params ''query'')")
      case True
      with same [OF agree_search [OF True]] l m t show ?thesis by simp
    next
      case False
      with l m t show ?thesis by (simp add: legacy_search_missing mcp_search_missing ret_def)
    qed
  qed
  show ?thesis
  proof (cases "tool = ''list_r2_files'' \<or> tool = ''read_r2_file'' \<or> tool = ''search_vectors''")
    case True
    then consider "tool = ''list_r2_files''" | "tool = ''read_r2_file''" | "tool = ''search_vectors''"
      by blast
    then show ?thesis
    proof cases
      case 1
      then show ?thesis by (rule list)
    next
      case 2
      then show ?thesis by (rule read)
    next
      case 3
      then show ?thesis by (rule search)
    qed
  next
    case False
    then show ?thesis by simp
  qed
qed

theorem legacy_and_tools_call_agree_witness:
  "fetch example_builtins (post (legacy_body (JStr ''list_r2_files'') (JObj []))) empty_bucket_env =
     (Inr (legacyJson (text_content ''[]'') 200), [R2_list_call '''']) \<and>
   same_outcome (JNum (Finite 5))
     (fst (fetch example_builtins (post (legacy_body (JStr ''list_r2_files'') (JObj []))) empty_bucket_env))
     (fst (fetch example_builtins
        (post (tools_call_body (JNum (Finite 5)) (JStr ''list_r2_files'') (JObj []))) empty_bucket_env)) \<and>
   fst (fetch example_builtins
        (post (tools_call_body (JNum (Finite 5)) (JStr ''list_r2_files'') (JObj []))) empty_bucket_env) =
     Inr (jsonRpcResult (JNum (Finite 5)) (text_content ''[]'') 200) \<and>
   outcome_text (fst (fetch example_builtins
        (post (tools_call_body (JNum (Finite 5)) (JStr ''list_r2_files'') (JObj []))) empty_bucket_env)) =
     JStr ''[]'' \<and>
   snd (fetch example_builtins
        (post (tools_call_body (JNum (Finite 5)) (JStr ''list_r2_files'') (JObj []))) empty_bucket_env) =
     [R2_list_call ''''] \<and>
   fst (fetch example_builtins (post (legacy_body (JStr ''list_r2_files'') (JObj []))) null_rejecting_env) =
     Inl (Error (''Cannot read properties of null (reading 'message'' @ [CHR 0x27] @ '')'')) \<and>
   fst (fetch example_builtins
        (post (tools_call_body (JNum (Finite 5)) (JStr ''list_r2_files'') (JObj []))) null_rejecting_env) =
     Inl (Error (''Cannot read properties of null (reading 'message'' @ [CHR 0x27] @ '')''))"
proof -
  have p: "legacy_prefix (JObj []) = ret ''''"
    by (simp add: legacy_prefix_def coalesce_def own_def)
  have l: "fetch example_builtins (post (legacy_body (JStr ''list_r2_files'') (JObj []))) empty_bucket_env =
     (Inr (legacyJson (text_content ''[]'') 200), [R2_list_call ''''])"
    by (simp add: fetch_legacy_list [OF post_legacy] legacy_list_r2_files_def p
        R2_list_def empty_bucket_env_def seq_called_Inr array_map_def own_def example_builtins_def)
  have n: "fetch example_builtins (post (legacy_body (JStr ''list_r2_files'') (JObj []))) null_rejecting_env =
     (Inl (Error (''Cannot read properties of null (reading 'message'' @ [CHR 0x27] @ '')'')),
      [R2_list_call ''''])"
    by (simp add: fetch_legacy_list [OF post_legacy]
        legacy_list_fails [where bucket = "\<lparr> r2_list = (\<lambda>prefix. Inl (Thrown JNull)),
                      r2_get = (\<lambda>key. Inl (Thrown JNull)) \<rparr>" and prefix = "''''" and e = "Thrown JNull"]
        p null_rejecting_env_def catch_block_def)
  note a = legacy_and_tools_call_agree [OF post_legacy [of "JStr ''list_r2_files''" "JObj []"]
      post_jsonrpc [of "JNum (Finite 5)" "JStr ''list_r2_files''" "JObj []"],
      where b = example_builtins]
  from a [where env = empty_bucket_env] a [where env = null_rejecting_env] l n
  show ?thesis
    by (simp add: own_def same_outcome_def same_content_def inner_text_legacyJson outcome_text_def
        split: sum.splits)
qed

theorem missing_query_texts_counterexample:
  "outcome_text (fst (fetch example_builtins
     (post (legacy_body (JStr ''search_vectors'') (JObj []))) empty_bucket_env)) =
     JStr (''Error: missing 'query'' @ [CHR 0x27]) \<and>
   outcome_text (fst (fetch example_builtins
     (post (tools_call_body (JNum (Finite 1)) (JStr ''search_vectors'') (JObj []))) empty_bucket_env)) =
     JStr ''Error: missing 'query' argument'' \<and>
   outcome_text (fst (fetch example_builtins
     (post (legacy_body (JStr ''search_vectors'') (JObj []))) empty_bucket_env)) \<noteq>
   outcome_text (fst (fetch example_builtins
     (post (tools_call_body (JNum (Finite 1)) (JStr ''search_vectors'') (JObj []))) empty_bucket_env))"
  by (simp add: fetch_legacy_search [OF post_legacy] fetch_mcp_search [OF post_jsonrpc]
      legacy_search_missing mcp_search_missing own_def outcome_text_def)


end
